theory Spec2Isabelle
  imports Main "HOL-Library.Word"
begin

section \<open>Common conventions\<close>

text \<open>
  The three headers of the repository (tcpexample.h, chatbot.h, nosingleton.h) each
  implement the State pattern: a context object forwards every request to the object its
  \<open>current_state_\<close> pointer refers to, and the state objects move the context to its
  next state through \<open>change_state\<close>.

  A failed \<open>assert\<close> aborts the program; following a null or dangling pointer is
  undefined behaviour. Both are results of the model, never silently skipped.
\<close>

datatype error = AssertionFailed | NullDereference | DanglingPointer

text \<open>Sequencing of two steps of which the first may abort.\<close>

definition seq :: "error + 'a \<Rightarrow> ('a \<Rightarrow> error + 'b) \<Rightarrow> error + 'b" where
  "seq r f = (case r of Inl e \<Rightarrow> Inl e | Inr x \<Rightarrow> f x)"

text \<open>\<open>std::endl\<close> writes a newline (and flushes, which has no value in the model).\<close>

definition endl :: string where
  "endl = [CHR 0x0A]"


section \<open>tcpexample.h\<close>

subsection \<open>State objects and the context\<close>

text \<open>
  The concrete classes derived from the abstract class \<open>TCPState\<close>. Each has one
  function-local static object, returned by its \<open>instance()\<close>; a \<open>TCPState*\<close> is
  therefore either null (\<open>None\<close>) or the address of the instance of one class.
\<close>

datatype TCPState =
    TCPEstablished | TCPListen | TCPClosed
  | TCPSynSent | TCPSynRecieved | TCPFinWait1 | TCPFinWait2
  | TCPCloseWait | TCPClosing | TCPLastAck | TCPTimeWait

type_synonym TCPState_ptr = "TCPState option"

definition TCPEstablished_instance :: TCPState_ptr where
  "TCPEstablished_instance = Some TCPEstablished"

definition TCPListen_instance :: TCPState_ptr where
  "TCPListen_instance = Some TCPListen"

definition TCPClosed_instance :: TCPState_ptr where
  "TCPClosed_instance = Some TCPClosed"

text \<open>
  The members \<open>current_state_\<close> and \<open>is_server_\<close>; a name of the logic cannot end
  in an underscore, so the fields drop it.
\<close>

record TCPConnection =
  current_state :: TCPState_ptr
  is_server :: bool

text \<open>
  \<open>TCPConnection::change_state\<close>: \<open>assert(state); current_state_ = state;\<close>
\<close>

definition TCPConnection_change_state :: "TCPConnection \<Rightarrow> TCPState_ptr \<Rightarrow> error + TCPConnection" where
  "TCPConnection_change_state conn state =
     (case state of
        None \<Rightarrow> Inl AssertionFailed
      | Some _ \<Rightarrow> Inr (conn\<lparr>current_state := state\<rparr>))"

text \<open>
  \<open>TCPState::change_state\<close>: \<open>assert(context); context->change_state(state);\<close>
  A handler is only ever entered from a forwarding member of \<open>TCPConnection\<close>, which
  passes \<open>this\<close>; the model hands the handler the connection object itself, so the
  context pointer is that of an existing object and \<open>assert(context)\<close> holds.
\<close>

definition TCPState_change_state :: "TCPConnection \<Rightarrow> TCPState_ptr \<Rightarrow> error + TCPConnection" where
  "TCPState_change_state context state = TCPConnection_change_state context state"

subsection \<open>Handlers\<close>

text \<open>
  A handler returns the connection as it leaves it together with the text it wrote to
  \<open>std::cerr\<close>. The request \<open>transmit\<close> carries a stream, which no handler writes to.
\<close>

type_synonym tcp_result = "error + (TCPConnection \<times> string)"

text \<open>Default implementations, in the base class.\<close>

definition TCPState_transmit :: "TCPConnection \<Rightarrow> string \<Rightarrow> tcp_result" where
  "TCPState_transmit context stream =
     Inr (context, ''Error: current state does not implement TCPState::transmit'' @ endl)"

definition TCPState_active_open :: "TCPConnection \<Rightarrow> tcp_result" where
  "TCPState_active_open context =
     Inr (context, ''Error: current state does not implement TCPState::active_open'' @ endl)"

definition TCPState_passive_open :: "TCPConnection \<Rightarrow> tcp_result" where
  "TCPState_passive_open context =
     Inr (context, ''Error: current state does not implement TCPState::passive_open'' @ endl)"

definition TCPState_close :: "TCPConnection \<Rightarrow> tcp_result" where
  "TCPState_close context =
     Inr (context, ''Error: current state does not implement TCPState::close'' @ endl)"

definition TCPState_synchronize :: "TCPConnection \<Rightarrow> tcp_result" where
  "TCPState_synchronize context =
     Inr (context, ''Error: current state does not implement TCPState::synchronize'' @ endl)"

definition TCPState_acknowledge :: "TCPConnection \<Rightarrow> tcp_result" where
  "TCPState_acknowledge context =
     Inr (context, ''Error: current state does not implement TCPState::acknowledge'' @ endl)"

definition TCPState_send :: "TCPConnection \<Rightarrow> tcp_result" where
  "TCPState_send context =
     Inr (context, ''Error: current state does not implement TCPState::send'' @ endl)"

text \<open>Overrides of \<open>TCPEstablished\<close>.\<close>

definition TCPEstablished_transmit :: "TCPConnection \<Rightarrow> string \<Rightarrow> tcp_result" where
  "TCPEstablished_transmit context stream = Inr (context, [])"

definition TCPEstablished_close :: "TCPConnection \<Rightarrow> tcp_result" where
  "TCPEstablished_close context =
     seq (TCPState_change_state context TCPListen_instance) (\<lambda>c. Inr (c, []))"

text \<open>Override of \<open>TCPListen\<close>; the source changes the state twice, to the same target.\<close>

definition TCPListen_send :: "TCPConnection \<Rightarrow> tcp_result" where
  "TCPListen_send context =
     seq (TCPState_change_state context TCPEstablished_instance) (\<lambda>c.
     seq (TCPState_change_state c TCPEstablished_instance) (\<lambda>c'. Inr (c', [])))"

text \<open>Overrides of \<open>TCPClosed\<close>.\<close>

definition TCPClosed_active_open :: "TCPConnection \<Rightarrow> tcp_result" where
  "TCPClosed_active_open context =
     seq (TCPState_change_state context TCPEstablished_instance) (\<lambda>c.
     seq (TCPState_change_state c TCPEstablished_instance) (\<lambda>c'. Inr (c', [])))"

definition TCPClosed_passive_open :: "TCPConnection \<Rightarrow> tcp_result" where
  "TCPClosed_passive_open context =
     seq (TCPState_change_state context TCPListen_instance) (\<lambda>c. Inr (c, []))"

subsection \<open>Virtual calls\<close>

text \<open>
  A call through a \<open>TCPState*\<close> runs the override of the object's class where the class
  declares one and the base class's implementation otherwise.
\<close>

fun virtual_transmit :: "TCPState \<Rightarrow> TCPConnection \<Rightarrow> string \<Rightarrow> tcp_result" where
  "virtual_transmit TCPEstablished = TCPEstablished_transmit"
| "virtual_transmit _ = TCPState_transmit"

fun virtual_active_open :: "TCPState \<Rightarrow> TCPConnection \<Rightarrow> tcp_result" where
  "virtual_active_open TCPClosed = TCPClosed_active_open"
| "virtual_active_open _ = TCPState_active_open"

fun virtual_passive_open :: "TCPState \<Rightarrow> TCPConnection \<Rightarrow> tcp_result" where
  "virtual_passive_open TCPClosed = TCPClosed_passive_open"
| "virtual_passive_open _ = TCPState_passive_open"

fun virtual_close :: "TCPState \<Rightarrow> TCPConnection \<Rightarrow> tcp_result" where
  "virtual_close TCPEstablished = TCPEstablished_close"
| "virtual_close _ = TCPState_close"

fun virtual_synchronize :: "TCPState \<Rightarrow> TCPConnection \<Rightarrow> tcp_result" where
  "virtual_synchronize _ = TCPState_synchronize"

fun virtual_acknowledge :: "TCPState \<Rightarrow> TCPConnection \<Rightarrow> tcp_result" where
  "virtual_acknowledge _ = TCPState_acknowledge"

fun virtual_send :: "TCPState \<Rightarrow> TCPConnection \<Rightarrow> tcp_result" where
  "virtual_send TCPListen = TCPListen_send"
| "virtual_send _ = TCPState_send"

subsection \<open>The public interface of the connection\<close>

text \<open>
  The constructor \<open>TCPConnection(bool is_server)\<close>: the members take their default
  initialisers (\<open>current_state_{}\<close> is null), \<open>is_server_\<close> the argument, and the body
  calls \<open>change_state(TCPClosed::instance())\<close>.
\<close>

definition TCPConnection_ctor :: "bool \<Rightarrow> error + TCPConnection" where
  "TCPConnection_ctor srv =
     TCPConnection_change_state \<lparr>current_state = None, is_server = srv\<rparr> TCPClosed_instance"

definition TCPConnection_is_server :: "TCPConnection \<Rightarrow> bool" where
  "TCPConnection_is_server conn = is_server conn"

text \<open>Each member forwards to the current state: \<open>current_state_->request(this)\<close>.\<close>

definition TCPConnection_transmit :: "TCPConnection \<Rightarrow> string \<Rightarrow> tcp_result" where
  "TCPConnection_transmit conn stream =
     (case current_state conn of
        None \<Rightarrow> Inl NullDereference
      | Some s \<Rightarrow> virtual_transmit s conn stream)"

definition TCPConnection_active_open :: "TCPConnection \<Rightarrow> tcp_result" where
  "TCPConnection_active_open conn =
     (case current_state conn of
        None \<Rightarrow> Inl NullDereference
      | Some s \<Rightarrow> virtual_active_open s conn)"

definition TCPConnection_passive_open :: "TCPConnection \<Rightarrow> tcp_result" where
  "TCPConnection_passive_open conn =
     (case current_state conn of
        None \<Rightarrow> Inl NullDereference
      | Some s \<Rightarrow> virtual_passive_open s conn)"

definition TCPConnection_close :: "TCPConnection \<Rightarrow> tcp_result" where
  "TCPConnection_close conn =
     (case current_state conn of
        None \<Rightarrow> Inl NullDereference
      | Some s \<Rightarrow> virtual_close s conn)"

definition TCPConnection_synchronize :: "TCPConnection \<Rightarrow> tcp_result" where
  "TCPConnection_synchronize conn =
     (case current_state conn of
        None \<Rightarrow> Inl NullDereference
      | Some s \<Rightarrow> virtual_synchronize s conn)"

definition TCPConnection_acknowledge :: "TCPConnection \<Rightarrow> tcp_result" where
  "TCPConnection_acknowledge conn =
     (case current_state conn of
        None \<Rightarrow> Inl NullDereference
      | Some s \<Rightarrow> virtual_acknowledge s conn)"

definition TCPConnection_send :: "TCPConnection \<Rightarrow> tcp_result" where
  "TCPConnection_send conn =
     (case current_state conn of
        None \<Rightarrow> Inl NullDereference
      | Some s \<Rightarrow> virtual_send s conn)"

text \<open>
  The requests a client can make of a connection, and the member each one stands for.
\<close>

datatype TCPRequest =
    Transmit string | ActiveOpen | PassiveOpen | Close | Synchronize | Acknowledge | Send

fun TCPConnection_dispatch :: "TCPConnection \<Rightarrow> TCPRequest \<Rightarrow> tcp_result" where
  "TCPConnection_dispatch conn (Transmit stream) = TCPConnection_transmit conn stream"
| "TCPConnection_dispatch conn ActiveOpen = TCPConnection_active_open conn"
| "TCPConnection_dispatch conn PassiveOpen = TCPConnection_passive_open conn"
| "TCPConnection_dispatch conn Close = TCPConnection_close conn"
| "TCPConnection_dispatch conn Synchronize = TCPConnection_synchronize conn"
| "TCPConnection_dispatch conn Acknowledge = TCPConnection_acknowledge conn"
| "TCPConnection_dispatch conn Send = TCPConnection_send conn"

text \<open>
  Which handlers a class declares with \<open>override\<close>, read off the class definitions.
\<close>

fun tcp_overrides :: "TCPState \<Rightarrow> TCPRequest \<Rightarrow> bool" where
  "tcp_overrides TCPEstablished (Transmit _) = True"
| "tcp_overrides TCPEstablished Close = True"
| "tcp_overrides TCPListen Send = True"
| "tcp_overrides TCPClosed ActiveOpen = True"
| "tcp_overrides TCPClosed PassiveOpen = True"
| "tcp_overrides _ _ = False"

text \<open>The spelling of a request in the diagnostics: the name of the member function.\<close>

fun tcp_request_name :: "TCPRequest \<Rightarrow> string" where
  "tcp_request_name (Transmit _) = ''transmit''"
| "tcp_request_name ActiveOpen = ''active_open''"
| "tcp_request_name PassiveOpen = ''passive_open''"
| "tcp_request_name Close = ''close''"
| "tcp_request_name Synchronize = ''synchronize''"
| "tcp_request_name Acknowledge = ''acknowledge''"
| "tcp_request_name Send = ''send''"


section \<open>chatbot.h\<close>

text \<open>
  Names of namespace \<open>chat\<close> carry the prefix \<open>chat_\<close>. The struct \<open>Patient\<close> is
  the same in the namespaces \<open>chat\<close> and \<open>nosingleton\<close> and is modelled once. The
  parameter \<open>bot\<close> of the handlers is written \<open>chatbot\<close>, since \<open>bot\<close> is a
  constant of the logic.
\<close>

subsection \<open>Data\<close>

text \<open>A C++ \<open>int\<close>, 32 bits in two's complement.\<close>

type_synonym cint = "32 word"

record Patient =
  name :: string
  address :: string
  age :: cint
  height :: cint

text \<open>
  The concrete classes derived from \<open>State\<close>; each has one static object, returned by
  its \<open>instance()\<close>, so a \<open>State*\<close> is null or the instance of one class.
\<close>

datatype chat_State =
    StartState | MainMenuState
  | CollectNameState | CollectAddressState | CollectAgeState | CollectHeightState
  | EditNameState | EditAddressState | EditAgeState | EditHeightState
  | ConfirmInfoState | EditOptionsState | FinishedState

type_synonym chat_State_ptr = "chat_State option"

definition chat_StartState_instance :: chat_State_ptr where
  "chat_StartState_instance = Some StartState"

definition chat_MainMenuState_instance :: chat_State_ptr where
  "chat_MainMenuState_instance = Some MainMenuState"

definition chat_CollectNameState_instance :: chat_State_ptr where
  "chat_CollectNameState_instance = Some CollectNameState"

definition chat_CollectAddressState_instance :: chat_State_ptr where
  "chat_CollectAddressState_instance = Some CollectAddressState"

definition chat_CollectAgeState_instance :: chat_State_ptr where
  "chat_CollectAgeState_instance = Some CollectAgeState"

definition chat_CollectHeightState_instance :: chat_State_ptr where
  "chat_CollectHeightState_instance = Some CollectHeightState"

definition chat_EditNameState_instance :: chat_State_ptr where
  "chat_EditNameState_instance = Some EditNameState"

definition chat_EditAddressState_instance :: chat_State_ptr where
  "chat_EditAddressState_instance = Some EditAddressState"

definition chat_EditAgeState_instance :: chat_State_ptr where
  "chat_EditAgeState_instance = Some EditAgeState"

definition chat_EditHeightState_instance :: chat_State_ptr where
  "chat_EditHeightState_instance = Some EditHeightState"

definition chat_ConfirmInfoState_instance :: chat_State_ptr where
  "chat_ConfirmInfoState_instance = Some ConfirmInfoState"

definition chat_EditOptionsState_instance :: chat_State_ptr where
  "chat_EditOptionsState_instance = Some EditOptionsState"

definition chat_FinishedState_instance :: chat_State_ptr where
  "chat_FinishedState_instance = Some FinishedState"

record chat_ChatBot =
  chat_current_state :: chat_State_ptr
  chat_patient :: Patient

subsection \<open>Console\<close>

text \<open>
  The handlers read \<open>std::cin\<close> in two ways: \<open>getline(std::cin, s)\<close>, and
  \<open>std::cin >> n\<close> followed by \<open>ignore\<close> up to the end of the line. The console and the
  stream library are not part of the repository, so what a read stores is a parameter of
  the model: for one call of \<open>process_input\<close>, \<open>line_read\<close> is the string a
  \<open>getline\<close> stores and \<open>int_read\<close> the integer an extraction stores. Every handler
  performs at most one of the two reads and looks at that field only. Reads that fail
  (end of input, text that is no integer) are outside the model.

  A handler returns the bot as it leaves it and the text it wrote to \<open>std::cout\<close>.
\<close>

record console_input =
  line_read :: string
  int_read :: cint

type_synonym chat_result = "error + (chat_ChatBot \<times> string)"

text \<open>\<open>clear_screen\<close>: a hundred newlines, then \<open>std::endl\<close>.\<close>

definition clear_screen :: string where
  "clear_screen = replicate 100 (CHR 0x0A) @ endl"

text \<open>The text \<open>operator<<\<close> writes for an \<open>int\<close>: decimal, with a sign when negative.\<close>

function dec_digits :: "nat \<Rightarrow> string" where
  "dec_digits n =
     (if n < 10 then [char_of (48 + n)]
      else dec_digits (n div 10) @ [char_of (48 + n mod 10)])"
  by pat_completeness auto
termination
  by (relation "measure id") auto

definition show_int :: "cint \<Rightarrow> string" where
  "show_int i =
     (if sint i < 0 then CHR ''-'' # dec_digits (nat (- sint i))
      else dec_digits (nat (sint i)))"

subsection \<open>Privileged operations of the context\<close>

text \<open>\<open>ChatBot::change_state\<close>: \<open>assert(state); current_state_ = state;\<close>\<close>

definition chat_ChatBot_change_state :: "chat_ChatBot \<Rightarrow> chat_State_ptr \<Rightarrow> error + chat_ChatBot" where
  "chat_ChatBot_change_state chatbot state =
     (case state of
        None \<Rightarrow> Inl AssertionFailed
      | Some _ \<Rightarrow> Inr (chatbot\<lparr>chat_current_state := state\<rparr>))"

text \<open>
  \<open>State::change_state\<close>: \<open>assert(bot); bot->change_state(state);\<close> As in
  tcpexample.h, a handler receives the bot that forwarded the request (\<open>this\<close>), so
  \<open>assert(bot)\<close> holds.
\<close>

definition chat_State_change_state :: "chat_ChatBot \<Rightarrow> chat_State_ptr \<Rightarrow> error + chat_ChatBot" where
  "chat_State_change_state chatbot state = chat_ChatBot_change_state chatbot state"

definition chat_State_set_patient_name :: "chat_ChatBot \<Rightarrow> string \<Rightarrow> chat_ChatBot" where
  "chat_State_set_patient_name chatbot n = chatbot\<lparr>chat_patient := (chat_patient chatbot)\<lparr>name := n\<rparr>\<rparr>"

definition chat_State_set_patient_address :: "chat_ChatBot \<Rightarrow> string \<Rightarrow> chat_ChatBot" where
  "chat_State_set_patient_address chatbot a = chatbot\<lparr>chat_patient := (chat_patient chatbot)\<lparr>address := a\<rparr>\<rparr>"

definition chat_State_set_patient_age :: "chat_ChatBot \<Rightarrow> cint \<Rightarrow> chat_ChatBot" where
  "chat_State_set_patient_age chatbot a = chatbot\<lparr>chat_patient := (chat_patient chatbot)\<lparr>age := a\<rparr>\<rparr>"

definition chat_State_set_patient_height :: "chat_ChatBot \<Rightarrow> cint \<Rightarrow> chat_ChatBot" where
  "chat_State_set_patient_height chatbot h = chatbot\<lparr>chat_patient := (chat_patient chatbot)\<lparr>height := h\<rparr>\<rparr>"

definition chat_ChatBot_get_patient_info :: "chat_ChatBot \<Rightarrow> Patient" where
  "chat_ChatBot_get_patient_info chatbot = chat_patient chatbot"

subsection \<open>Handlers\<close>

text \<open>Default implementations, in the base class \<open>State\<close>.\<close>

definition chat_State_prompt_user :: "chat_ChatBot \<Rightarrow> chat_result" where
  "chat_State_prompt_user chatbot =
     Inr (chatbot, ''Error: State does not implement State::prompt_user'' @ endl)"

definition chat_State_process_input :: "chat_ChatBot \<Rightarrow> console_input \<Rightarrow> chat_result" where
  "chat_State_process_input chatbot inp =
     Inr (chatbot, ''Error: State does not implement State::process_input'' @ endl)"

text \<open>Start.\<close>

definition chat_StartState_prompt_user :: "chat_ChatBot \<Rightarrow> chat_result" where
  "chat_StartState_prompt_user chatbot =
     Inr (chatbot,
        clear_screen @
        ''Welcome\<newline>\<newline>\<newline>\<newline>\<newline>Press enter to start'' @ endl)"

definition chat_StartState_process_input :: "chat_ChatBot \<Rightarrow> console_input \<Rightarrow> chat_result" where
  "chat_StartState_process_input chatbot inp =
     (let line = line_read inp in
      seq (chat_State_change_state chatbot chat_MainMenuState_instance) (\<lambda>b.
      Inr (b, ''Contents: ('' @ line @ '')'' @ endl)))"

text \<open>MainMenu; the \<open>switch\<close> has an empty \<open>default\<close>.\<close>

definition chat_MainMenuState_prompt_user :: "chat_ChatBot \<Rightarrow> chat_result" where
  "chat_MainMenuState_prompt_user chatbot =
     Inr (chatbot,
        clear_screen @
        ''Main Menu\<newline>\<newline>\<newline>\<newline>\<newline>'' @
        ''1. Add Patient\<newline>2. Exit\<newline>\<newline>\<newline>'' @
        ''Type a number according to your selection and press enter\<newline>'' @ endl)"

definition chat_MainMenuState_process_input :: "chat_ChatBot \<Rightarrow> console_input \<Rightarrow> chat_result" where
  "chat_MainMenuState_process_input chatbot inp =
     (let sel = int_read inp in
      if sel = 1 then seq (chat_State_change_state chatbot chat_CollectNameState_instance) (\<lambda>b. Inr (b, []))
      else if sel = 2 then seq (chat_State_change_state chatbot chat_FinishedState_instance) (\<lambda>b. Inr (b, []))
      else Inr (chatbot, []))"

text \<open>CollectName.\<close>

definition chat_CollectNameState_prompt_user :: "chat_ChatBot \<Rightarrow> chat_result" where
  "chat_CollectNameState_prompt_user chatbot =
     Inr (chatbot,
        clear_screen @
        ''Add Patient Name\<newline>\<newline>\<newline>\<newline>\<newline>\<newline>'' @
        ''Type your name and press enter\<newline>'' @ endl)"

definition chat_CollectNameState_process_input :: "chat_ChatBot \<Rightarrow> console_input \<Rightarrow> chat_result" where
  "chat_CollectNameState_process_input chatbot inp =
     (let name_in = line_read inp in
      seq (chat_State_change_state (chat_State_set_patient_name chatbot name_in) chat_CollectAddressState_instance) (\<lambda>b.
      Inr (b, [])))"

text \<open>CollectAddress.\<close>

definition chat_CollectAddressState_prompt_user :: "chat_ChatBot \<Rightarrow> chat_result" where
  "chat_CollectAddressState_prompt_user chatbot =
     Inr (chatbot,
        clear_screen @
        ''Add Patient Address\<newline>\<newline>\<newline>\<newline>\<newline>\<newline>'' @
        ''Type your address and press enter\<newline>'' @ endl)"

definition chat_CollectAddressState_process_input :: "chat_ChatBot \<Rightarrow> console_input \<Rightarrow> chat_result" where
  "chat_CollectAddressState_process_input chatbot inp =
     (let address_in = line_read inp in
      seq (chat_State_change_state (chat_State_set_patient_address chatbot address_in) chat_CollectAgeState_instance) (\<lambda>b.
      Inr (b, [])))"

text \<open>CollectAge.\<close>

definition chat_CollectAgeState_prompt_user :: "chat_ChatBot \<Rightarrow> chat_result" where
  "chat_CollectAgeState_prompt_user chatbot =
     Inr (chatbot,
        clear_screen @
        ''Add Patient Age\<newline>\<newline>\<newline>\<newline>\<newline>\<newline>'' @
        ''Type your age and press enter\<newline>'' @ endl)"

definition chat_CollectAgeState_process_input :: "chat_ChatBot \<Rightarrow> console_input \<Rightarrow> chat_result" where
  "chat_CollectAgeState_process_input chatbot inp =
     (let age_in = int_read inp in
      seq (chat_State_change_state (chat_State_set_patient_age chatbot age_in) chat_CollectHeightState_instance) (\<lambda>b.
      Inr (b, [])))"

text \<open>CollectHeight.\<close>

definition chat_CollectHeightState_prompt_user :: "chat_ChatBot \<Rightarrow> chat_result" where
  "chat_CollectHeightState_prompt_user chatbot =
     Inr (chatbot,
        clear_screen @
        ''Add Patient Height\<newline>\<newline>\<newline>\<newline>\<newline>\<newline>'' @
        ''Type your height and press enter\<newline>'' @ endl)"

definition chat_CollectHeightState_process_input :: "chat_ChatBot \<Rightarrow> console_input \<Rightarrow> chat_result" where
  "chat_CollectHeightState_process_input chatbot inp =
     (let height_in = int_read inp in
      seq (chat_State_change_state (chat_State_set_patient_height chatbot height_in) chat_ConfirmInfoState_instance) (\<lambda>b.
      Inr (b, [])))"

text \<open>EditName.\<close>

definition chat_EditNameState_prompt_user :: "chat_ChatBot \<Rightarrow> chat_result" where
  "chat_EditNameState_prompt_user chatbot =
     Inr (chatbot,
        clear_screen @
        ''Edit Patient Name\<newline>\<newline>\<newline>\<newline>\<newline>\<newline>'' @
        ''Type your name and press enter\<newline>'' @ endl)"

definition chat_EditNameState_process_input :: "chat_ChatBot \<Rightarrow> console_input \<Rightarrow> chat_result" where
  "chat_EditNameState_process_input chatbot inp =
     (let name_in = line_read inp in
      seq (chat_State_change_state (chat_State_set_patient_name chatbot name_in) chat_EditOptionsState_instance) (\<lambda>b.
      Inr (b, [])))"

text \<open>EditAddress.\<close>

definition chat_EditAddressState_prompt_user :: "chat_ChatBot \<Rightarrow> chat_result" where
  "chat_EditAddressState_prompt_user chatbot =
     Inr (chatbot,
        clear_screen @
        ''Edit Patient Address\<newline>\<newline>\<newline>\<newline>\<newline>\<newline>'' @
        ''Type your address and press enter\<newline>'' @ endl)"

definition chat_EditAddressState_process_input :: "chat_ChatBot \<Rightarrow> console_input \<Rightarrow> chat_result" where
  "chat_EditAddressState_process_input chatbot inp =
     (let address_in = line_read inp in
      seq (chat_State_change_state (chat_State_set_patient_address chatbot address_in) chat_EditOptionsState_instance) (\<lambda>b.
      Inr (b, [])))"

text \<open>EditAge.\<close>

definition chat_EditAgeState_prompt_user :: "chat_ChatBot \<Rightarrow> chat_result" where
  "chat_EditAgeState_prompt_user chatbot =
     Inr (chatbot,
        clear_screen @
        ''Edit Patient Age\<newline>\<newline>\<newline>\<newline>\<newline>\<newline>'' @
        ''Type your age and press enter\<newline>'' @ endl)"

definition chat_EditAgeState_process_input :: "chat_ChatBot \<Rightarrow> console_input \<Rightarrow> chat_result" where
  "chat_EditAgeState_process_input chatbot inp =
     (let age_in = int_read inp in
      seq (chat_State_change_state (chat_State_set_patient_age chatbot age_in) chat_EditOptionsState_instance) (\<lambda>b.
      Inr (b, [])))"

text \<open>EditHeight.\<close>

definition chat_EditHeightState_prompt_user :: "chat_ChatBot \<Rightarrow> chat_result" where
  "chat_EditHeightState_prompt_user chatbot =
     Inr (chatbot,
        clear_screen @
        ''Edit Patient Height\<newline>\<newline>\<newline>\<newline>\<newline>\<newline>'' @
        ''Type your height and press enter\<newline>'' @ endl)"

definition chat_EditHeightState_process_input :: "chat_ChatBot \<Rightarrow> console_input \<Rightarrow> chat_result" where
  "chat_EditHeightState_process_input chatbot inp =
     (let height_in = int_read inp in
      seq (chat_State_change_state (chat_State_set_patient_height chatbot height_in) chat_EditOptionsState_instance) (\<lambda>b.
      Inr (b, [])))"

text \<open>ConfirmInfo.\<close>

definition chat_ConfirmInfoState_prompt_user :: "chat_ChatBot \<Rightarrow> chat_result" where
  "chat_ConfirmInfoState_prompt_user chatbot =
     (let patient = chat_ChatBot_get_patient_info chatbot in
      Inr (chatbot,
        clear_screen @
        ''Confirm Info is Correct\<newline>\<newline>\<newline>'' @
        ''Patient Name: '' @ name patient @ ''\<newline>'' @
        ''Patient Address: '' @ address patient @ ''\<newline>'' @
        ''Patient Age: '' @ show_int (age patient) @ ''\<newline>'' @
        ''Patient Height: '' @ show_int (height patient) @ ''\<newline>\<newline>\<newline>'' @
        ''1. Edit Patient Info\<newline>2. Save and Return to Menu\<newline>\<newline>\<newline>'' @
        ''Type a number according to your selection and press enter\<newline>'' @ endl))"

definition chat_ConfirmInfoState_process_input :: "chat_ChatBot \<Rightarrow> console_input \<Rightarrow> chat_result" where
  "chat_ConfirmInfoState_process_input chatbot inp =
     (let sel = int_read inp in
      if sel = 1 then seq (chat_State_change_state chatbot chat_EditOptionsState_instance) (\<lambda>b. Inr (b, []))
      else if sel = 2 then seq (chat_State_change_state chatbot chat_MainMenuState_instance) (\<lambda>b. Inr (b, []))
      else Inr (chatbot, []))"

text \<open>EditOptions.\<close>

definition chat_EditOptionsState_prompt_user :: "chat_ChatBot \<Rightarrow> chat_result" where
  "chat_EditOptionsState_prompt_user chatbot =
     Inr (chatbot,
        clear_screen @
        ''Edit Patient Info\<newline>\<newline>\<newline>\<newline>\<newline>'' @
        ''1. Edit Name\<newline>2. Edit Address\<newline>3. Edit Age\<newline>4. Edit Height\<newline>5. Save and Continue\<newline>\<newline>\<newline>'' @
        ''Type a number according to your selection and press enter\<newline>'' @ endl)"

definition chat_EditOptionsState_process_input :: "chat_ChatBot \<Rightarrow> console_input \<Rightarrow> chat_result" where
  "chat_EditOptionsState_process_input chatbot inp =
     (let sel = int_read inp in
      if sel = 1 then seq (chat_State_change_state chatbot chat_EditNameState_instance) (\<lambda>b. Inr (b, []))
      else if sel = 2 then seq (chat_State_change_state chatbot chat_EditAddressState_instance) (\<lambda>b. Inr (b, []))
      else if sel = 3 then seq (chat_State_change_state chatbot chat_EditAgeState_instance) (\<lambda>b. Inr (b, []))
      else if sel = 4 then seq (chat_State_change_state chatbot chat_EditHeightState_instance) (\<lambda>b. Inr (b, []))
      else if sel = 5 then seq (chat_State_change_state chatbot chat_ConfirmInfoState_instance) (\<lambda>b. Inr (b, []))
      else Inr (chatbot, []))"

text \<open>Finished: both handlers have empty bodies.\<close>

definition chat_FinishedState_prompt_user :: "chat_ChatBot \<Rightarrow> chat_result" where
  "chat_FinishedState_prompt_user chatbot = Inr (chatbot, [])"

definition chat_FinishedState_process_input :: "chat_ChatBot \<Rightarrow> console_input \<Rightarrow> chat_result" where
  "chat_FinishedState_process_input chatbot inp =
     Inr (chatbot, [])"

subsection \<open>Virtual calls and the public interface\<close>

text \<open>Every concrete class declares both handlers with \<open>override\<close>.\<close>

fun chat_virtual_prompt_user :: "chat_State \<Rightarrow> chat_ChatBot \<Rightarrow> chat_result" where
  "chat_virtual_prompt_user StartState = chat_StartState_prompt_user"
| "chat_virtual_prompt_user MainMenuState = chat_MainMenuState_prompt_user"
| "chat_virtual_prompt_user CollectNameState = chat_CollectNameState_prompt_user"
| "chat_virtual_prompt_user CollectAddressState = chat_CollectAddressState_prompt_user"
| "chat_virtual_prompt_user CollectAgeState = chat_CollectAgeState_prompt_user"
| "chat_virtual_prompt_user CollectHeightState = chat_CollectHeightState_prompt_user"
| "chat_virtual_prompt_user EditNameState = chat_EditNameState_prompt_user"
| "chat_virtual_prompt_user EditAddressState = chat_EditAddressState_prompt_user"
| "chat_virtual_prompt_user EditAgeState = chat_EditAgeState_prompt_user"
| "chat_virtual_prompt_user EditHeightState = chat_EditHeightState_prompt_user"
| "chat_virtual_prompt_user ConfirmInfoState = chat_ConfirmInfoState_prompt_user"
| "chat_virtual_prompt_user EditOptionsState = chat_EditOptionsState_prompt_user"
| "chat_virtual_prompt_user FinishedState = chat_FinishedState_prompt_user"

fun chat_virtual_process_input :: "chat_State \<Rightarrow> chat_ChatBot \<Rightarrow> console_input \<Rightarrow> chat_result" where
  "chat_virtual_process_input StartState = chat_StartState_process_input"
| "chat_virtual_process_input MainMenuState = chat_MainMenuState_process_input"
| "chat_virtual_process_input CollectNameState = chat_CollectNameState_process_input"
| "chat_virtual_process_input CollectAddressState = chat_CollectAddressState_process_input"
| "chat_virtual_process_input CollectAgeState = chat_CollectAgeState_process_input"
| "chat_virtual_process_input CollectHeightState = chat_CollectHeightState_process_input"
| "chat_virtual_process_input EditNameState = chat_EditNameState_process_input"
| "chat_virtual_process_input EditAddressState = chat_EditAddressState_process_input"
| "chat_virtual_process_input EditAgeState = chat_EditAgeState_process_input"
| "chat_virtual_process_input EditHeightState = chat_EditHeightState_process_input"
| "chat_virtual_process_input ConfirmInfoState = chat_ConfirmInfoState_process_input"
| "chat_virtual_process_input EditOptionsState = chat_EditOptionsState_process_input"
| "chat_virtual_process_input FinishedState = chat_FinishedState_process_input"

text \<open>
  The constructor \<open>ChatBot()\<close>: \<open>current_state_\<close> starts null, the strings of
  \<open>patient_\<close> start empty, and its two integers are left uninitialised (their values
  are the parameters); the body calls \<open>change_state(StartState::instance())\<close>.
\<close>

definition chat_ChatBot_ctor :: "cint \<Rightarrow> cint \<Rightarrow> error + chat_ChatBot" where
  "chat_ChatBot_ctor age0 height0 =
     chat_ChatBot_change_state
       \<lparr>chat_current_state = None,
        chat_patient = \<lparr>name = [], address = [], age = age0, height = height0\<rparr>\<rparr>
       chat_StartState_instance"

text \<open>\<open>running\<close>: \<open>current_state_ != FinishedState::instance()\<close>\<close>

definition chat_ChatBot_running :: "chat_ChatBot \<Rightarrow> bool" where
  "chat_ChatBot_running chatbot = (chat_current_state chatbot \<noteq> chat_FinishedState_instance)"

definition chat_ChatBot_prompt_user :: "chat_ChatBot \<Rightarrow> chat_result" where
  "chat_ChatBot_prompt_user chatbot =
     (case chat_current_state chatbot of
        None \<Rightarrow> Inl NullDereference
      | Some s \<Rightarrow> chat_virtual_prompt_user s chatbot)"

definition chat_ChatBot_process_input :: "chat_ChatBot \<Rightarrow> console_input \<Rightarrow> chat_result" where
  "chat_ChatBot_process_input chatbot inp =
     (case chat_current_state chatbot of
        None \<Rightarrow> Inl NullDereference
      | Some s \<Rightarrow> chat_virtual_process_input s chatbot inp)"

text \<open>A client that calls \<open>process_input\<close> once for each of a list of inputs, in turn.\<close>

fun chat_process_inputs :: "chat_ChatBot \<Rightarrow> console_input list \<Rightarrow> error + chat_ChatBot" where
  "chat_process_inputs chatbot [] = Inr chatbot"
| "chat_process_inputs chatbot (inp # rest) =
     seq (chat_ChatBot_process_input chatbot inp) (\<lambda>(b, out). chat_process_inputs b rest)"


section \<open>nosingleton.h\<close>

text \<open>
  Names of namespace \<open>nosingleton\<close> carry the prefix \<open>ns_\<close>. Here the state objects
  are members of a \<open>StateSet\<close>, several bots may point into one \<open>StateSet\<close>, and the
  handlers reach the bot through a \<open>ChatBot*\<close>; the objects therefore live in a store
  and are referred to by address.
\<close>

subsection \<open>Data\<close>

type_synonym addr = nat

text \<open>\<open>enum class StateName\<close>; the enumerator \<open>StateName::X\<close> is written \<open>StateName_X\<close>.\<close>

datatype ns_StateName =
    StateName_StartState
  | StateName_MainMenuState
  | StateName_CollectNameState
  | StateName_CollectAddressState
  | StateName_CollectAgeState
  | StateName_CollectHeightState
  | StateName_EditNameState
  | StateName_EditAddressState
  | StateName_EditAgeState
  | StateName_EditHeightState
  | StateName_ConfirmInfoState
  | StateName_EditOptionsState
  | StateName_FinishedState

text \<open>
  The state objects of a \<open>StateSet\<close> are its thirteen data members
  (\<open>start_state_\<close> of class \<open>StartState\<close>, \<open>main_menu_state_\<close> of class
  \<open>MainMenuState\<close>, and so on, each member named after its class). A non-null
  \<open>State*\<close> is the address of one member of the \<open>StateSet\<close> at some address.
\<close>

datatype ns_member =
    start_state
  | main_menu_state
  | collect_name_state
  | collect_address_state
  | collect_age_state
  | collect_height_state
  | edit_name_state
  | edit_address_state
  | edit_age_state
  | edit_height_state
  | confirm_info_state
  | edit_options_state
  | finished_state

type_synonym ns_State_ptr = "(addr \<times> ns_member) option"

text \<open>The member \<open>states_\<close>, a \<open>std::map<StateName, State*>\<close>.\<close>

record ns_StateSet =
  ns_states :: "ns_StateName \<rightharpoonup> ns_State_ptr"

record ns_ChatBot =
  ns_current_state :: ns_State_ptr
  ns_state_set :: "addr option"
  ns_patient :: Patient

text \<open>
  The store: the live \<open>StateSet\<close> and \<open>ChatBot\<close> objects, and what has been written
  to \<open>std::cout\<close>.
\<close>

record ns_Store =
  ns_state_sets :: "addr \<rightharpoonup> ns_StateSet"
  ns_bots :: "addr \<rightharpoonup> ns_ChatBot"
  ns_cout :: string

type_synonym ns_result = "error + ns_Store"

definition ns_write :: "string \<Rightarrow> ns_Store \<Rightarrow> ns_result" where
  "ns_write text st = Inr (st\<lparr>ns_cout := ns_cout st @ text\<rparr>)"

subsection \<open>The state set\<close>

text \<open>
  The constructor \<open>StateSet()\<close> of the object at address \<open>this\<close> stores the address
  of each member under its enumerator, one \<open>states_[..] = &..\<close> after the other. The
  local variables of the same names that the body declares after the assignments are
  not in scope at the assignments, which therefore take the addresses of the members.
\<close>

definition ns_StateSet_ctor :: "addr \<Rightarrow> ns_StateSet" where
  "ns_StateSet_ctor this =
       \<lparr>ns_states = Map.empty
          (StateName_StartState \<mapsto> Some (this, start_state),
           StateName_MainMenuState \<mapsto> Some (this, main_menu_state),
           StateName_CollectNameState \<mapsto> Some (this, collect_name_state),
           StateName_CollectAddressState \<mapsto> Some (this, collect_address_state),
           StateName_CollectAgeState \<mapsto> Some (this, collect_age_state),
           StateName_CollectHeightState \<mapsto> Some (this, collect_height_state),
           StateName_EditNameState \<mapsto> Some (this, edit_name_state),
           StateName_EditAddressState \<mapsto> Some (this, edit_address_state),
           StateName_EditAgeState \<mapsto> Some (this, edit_age_state),
           StateName_EditHeightState \<mapsto> Some (this, edit_height_state),
           StateName_ConfirmInfoState \<mapsto> Some (this, confirm_info_state),
           StateName_EditOptionsState \<mapsto> Some (this, edit_options_state),
           StateName_FinishedState \<mapsto> Some (this, finished_state))
       \<rparr>"

text \<open>The definition of a variable \<open>StateSet state_set{};\<close> that is given the address \<open>this\<close>.\<close>

definition ns_new_StateSet :: "addr \<Rightarrow> ns_Store \<Rightarrow> ns_Store" where
  "ns_new_StateSet this st =
     st\<lparr>ns_state_sets := (ns_state_sets st)(this \<mapsto> ns_StateSet_ctor this)\<rparr>"

text \<open>
  \<open>StateSet::get_state\<close>: \<open>find\<close>, \<open>assert(iter != states_.end())\<close>, then
  \<open>assert(state)\<close> on the pointer found.
\<close>

definition ns_StateSet_get_state :: "ns_StateSet \<Rightarrow> ns_StateName \<Rightarrow> error + ns_State_ptr" where
  "ns_StateSet_get_state sset nm =
     (case ns_states sset nm of
        None \<Rightarrow> Inl AssertionFailed
      | Some state \<Rightarrow>
          (case state of
             None \<Rightarrow> Inl AssertionFailed
           | Some _ \<Rightarrow> Inr state))"

text \<open>A call \<open>p->get_state(nm)\<close> through a \<open>StateSet*\<close>.\<close>

definition ns_get_state_at :: "addr option \<Rightarrow> ns_StateName \<Rightarrow> ns_Store \<Rightarrow> error + ns_State_ptr" where
  "ns_get_state_at p nm st =
     (case p of
        None \<Rightarrow> Inl NullDereference
      | Some a \<Rightarrow>
          (case ns_state_sets st a of
             None \<Rightarrow> Inl DanglingPointer
           | Some sset \<Rightarrow> ns_StateSet_get_state sset nm))"

subsection \<open>Privileged operations of the context\<close>

text \<open>
  \<open>ChatBot::change_state\<close> of the bot at address \<open>this\<close>:
  \<open>current_state_ = state_set_->get_state(name); assert(current_state_);\<close>
\<close>

definition ns_ChatBot_change_state :: "addr \<Rightarrow> ns_StateName \<Rightarrow> ns_Store \<Rightarrow> ns_result" where
  "ns_ChatBot_change_state this nm st =
     (case ns_bots st this of
        None \<Rightarrow> Inl DanglingPointer
      | Some b \<Rightarrow>
          seq (ns_get_state_at (ns_state_set b) nm st) (\<lambda>state.
            (case state of
               None \<Rightarrow> Inl AssertionFailed
             | Some _ \<Rightarrow> Inr (st\<lparr>ns_bots := (ns_bots st)(this \<mapsto> b\<lparr>ns_current_state := state\<rparr>)\<rparr>))))"

text \<open>\<open>State::change_state\<close>: \<open>assert(bot); bot->change_state(name);\<close>\<close>

definition ns_State_change_state :: "addr option \<Rightarrow> ns_StateName \<Rightarrow> ns_Store \<Rightarrow> ns_result" where
  "ns_State_change_state chatbot nm st =
     (case chatbot of
        None \<Rightarrow> Inl AssertionFailed
      | Some this \<Rightarrow> ns_ChatBot_change_state this nm st)"

text \<open>The setters write one field of \<open>bot->patient_\<close>, without an assertion.\<close>

definition ns_update_patient :: "addr option \<Rightarrow> (Patient \<Rightarrow> Patient) \<Rightarrow> ns_Store \<Rightarrow> ns_result" where
  "ns_update_patient chatbot f st =
     (case chatbot of
        None \<Rightarrow> Inl NullDereference
      | Some this \<Rightarrow>
          (case ns_bots st this of
             None \<Rightarrow> Inl DanglingPointer
           | Some b \<Rightarrow> Inr (st\<lparr>ns_bots := (ns_bots st)(this \<mapsto> b\<lparr>ns_patient := f (ns_patient b)\<rparr>)\<rparr>)))"

definition ns_State_set_patient_name :: "addr option \<Rightarrow> string \<Rightarrow> ns_Store \<Rightarrow> ns_result" where
  "ns_State_set_patient_name chatbot n st = ns_update_patient chatbot (\<lambda>p. p\<lparr>name := n\<rparr>) st"

definition ns_State_set_patient_address :: "addr option \<Rightarrow> string \<Rightarrow> ns_Store \<Rightarrow> ns_result" where
  "ns_State_set_patient_address chatbot a st = ns_update_patient chatbot (\<lambda>p. p\<lparr>address := a\<rparr>) st"

definition ns_State_set_patient_age :: "addr option \<Rightarrow> cint \<Rightarrow> ns_Store \<Rightarrow> ns_result" where
  "ns_State_set_patient_age chatbot a st = ns_update_patient chatbot (\<lambda>p. p\<lparr>age := a\<rparr>) st"

definition ns_State_set_patient_height :: "addr option \<Rightarrow> cint \<Rightarrow> ns_Store \<Rightarrow> ns_result" where
  "ns_State_set_patient_height chatbot h st = ns_update_patient chatbot (\<lambda>p. p\<lparr>height := h\<rparr>) st"

text \<open>\<open>bot->get_patient_info()\<close>\<close>

definition ns_get_patient_info_at :: "addr option \<Rightarrow> ns_Store \<Rightarrow> error + Patient" where
  "ns_get_patient_info_at chatbot st =
     (case chatbot of
        None \<Rightarrow> Inl NullDereference
      | Some this \<Rightarrow>
          (case ns_bots st this of
             None \<Rightarrow> Inl DanglingPointer
           | Some b \<Rightarrow> Inr (ns_patient b)))"

subsection \<open>Handlers\<close>

text \<open>Default implementations, in the base class \<open>State\<close>.\<close>

definition ns_State_prompt_user :: "addr option \<Rightarrow> ns_Store \<Rightarrow> ns_result" where
  "ns_State_prompt_user chatbot st =
     ns_write (''Error: State does not implement State::prompt_user'' @ endl) st"

definition ns_State_process_input :: "addr option \<Rightarrow> console_input \<Rightarrow> ns_Store \<Rightarrow> ns_result" where
  "ns_State_process_input chatbot inp st =
     ns_write (''Error: State does not implement State::process_input'' @ endl) st"

text \<open>Start.\<close>

definition ns_StartState_prompt_user :: "addr option \<Rightarrow> ns_Store \<Rightarrow> ns_result" where
  "ns_StartState_prompt_user chatbot st =
     ns_write (
        clear_screen @
        ''Welcome\<newline>\<newline>\<newline>\<newline>\<newline>Press enter to start'' @ endl) st"

definition ns_StartState_process_input :: "addr option \<Rightarrow> console_input \<Rightarrow> ns_Store \<Rightarrow> ns_result" where
  "ns_StartState_process_input chatbot inp st =
     (let line = line_read inp in
      seq (ns_write (''Contents: ('' @ line @ '')'' @ endl) st) (\<lambda>st1.
      ns_State_change_state chatbot StateName_MainMenuState st1))"

text \<open>MainMenu.\<close>

definition ns_MainMenuState_prompt_user :: "addr option \<Rightarrow> ns_Store \<Rightarrow> ns_result" where
  "ns_MainMenuState_prompt_user chatbot st =
     ns_write (
        clear_screen @
        ''Main Menu\<newline>\<newline>\<newline>\<newline>\<newline>'' @
        ''1. Add Patient\<newline>2. Exit\<newline>\<newline>\<newline>'' @
        ''Type a number according to your selection and press enter\<newline>'' @ endl) st"

definition ns_MainMenuState_process_input :: "addr option \<Rightarrow> console_input \<Rightarrow> ns_Store \<Rightarrow> ns_result" where
  "ns_MainMenuState_process_input chatbot inp st =
     (let sel = int_read inp in
      if sel = 1 then ns_State_change_state chatbot StateName_CollectNameState st
      else if sel = 2 then ns_State_change_state chatbot StateName_FinishedState st
      else Inr st)"

text \<open>CollectName.\<close>

definition ns_CollectNameState_prompt_user :: "addr option \<Rightarrow> ns_Store \<Rightarrow> ns_result" where
  "ns_CollectNameState_prompt_user chatbot st =
     ns_write (
        clear_screen @
        ''Add Patient Name\<newline>\<newline>\<newline>\<newline>\<newline>\<newline>'' @
        ''Type your name and press enter\<newline>'' @ endl) st"

definition ns_CollectNameState_process_input :: "addr option \<Rightarrow> console_input \<Rightarrow> ns_Store \<Rightarrow> ns_result" where
  "ns_CollectNameState_process_input chatbot inp st =
     (let name_in = line_read inp in
      seq (ns_State_set_patient_name chatbot name_in st) (\<lambda>st1.
      ns_State_change_state chatbot StateName_CollectAddressState st1))"

text \<open>CollectAddress.\<close>

definition ns_CollectAddressState_prompt_user :: "addr option \<Rightarrow> ns_Store \<Rightarrow> ns_result" where
  "ns_CollectAddressState_prompt_user chatbot st =
     ns_write (
        clear_screen @
        ''Add Patient Address\<newline>\<newline>\<newline>\<newline>\<newline>\<newline>'' @
        ''Type your address and press enter\<newline>'' @ endl) st"

definition ns_CollectAddressState_process_input :: "addr option \<Rightarrow> console_input \<Rightarrow> ns_Store \<Rightarrow> ns_result" where
  "ns_CollectAddressState_process_input chatbot inp st =
     (let address_in = line_read inp in
      seq (ns_State_set_patient_address chatbot address_in st) (\<lambda>st1.
      ns_State_change_state chatbot StateName_CollectAgeState st1))"

text \<open>CollectAge.\<close>

definition ns_CollectAgeState_prompt_user :: "addr option \<Rightarrow> ns_Store \<Rightarrow> ns_result" where
  "ns_CollectAgeState_prompt_user chatbot st =
     ns_write (
        clear_screen @
        ''Add Patient Age\<newline>\<newline>\<newline>\<newline>\<newline>\<newline>'' @
        ''Type your age and press enter\<newline>'' @ endl) st"

definition ns_CollectAgeState_process_input :: "addr option \<Rightarrow> console_input \<Rightarrow> ns_Store \<Rightarrow> ns_result" where
  "ns_CollectAgeState_process_input chatbot inp st =
     (let age_in = int_read inp in
      seq (ns_State_set_patient_age chatbot age_in st) (\<lambda>st1.
      ns_State_change_state chatbot StateName_CollectHeightState st1))"

text \<open>CollectHeight.\<close>

definition ns_CollectHeightState_prompt_user :: "addr option \<Rightarrow> ns_Store \<Rightarrow> ns_result" where
  "ns_CollectHeightState_prompt_user chatbot st =
     ns_write (
        clear_screen @
        ''Add Patient Height\<newline>\<newline>\<newline>\<newline>\<newline>\<newline>'' @
        ''Type your height and press enter\<newline>'' @ endl) st"

definition ns_CollectHeightState_process_input :: "addr option \<Rightarrow> console_input \<Rightarrow> ns_Store \<Rightarrow> ns_result" where
  "ns_CollectHeightState_process_input chatbot inp st =
     (let height_in = int_read inp in
      seq (ns_State_set_patient_height chatbot height_in st) (\<lambda>st1.
      ns_State_change_state chatbot StateName_ConfirmInfoState st1))"

text \<open>EditName.\<close>

definition ns_EditNameState_prompt_user :: "addr option \<Rightarrow> ns_Store \<Rightarrow> ns_result" where
  "ns_EditNameState_prompt_user chatbot st =
     ns_write (
        clear_screen @
        ''Edit Patient Name\<newline>\<newline>\<newline>\<newline>\<newline>\<newline>'' @
        ''Type your name and press enter\<newline>'' @ endl) st"

definition ns_EditNameState_process_input :: "addr option \<Rightarrow> console_input \<Rightarrow> ns_Store \<Rightarrow> ns_result" where
  "ns_EditNameState_process_input chatbot inp st =
     (let name_in = line_read inp in
      seq (ns_State_set_patient_name chatbot name_in st) (\<lambda>st1.
      ns_State_change_state chatbot StateName_EditOptionsState st1))"

text \<open>EditAddress.\<close>

definition ns_EditAddressState_prompt_user :: "addr option \<Rightarrow> ns_Store \<Rightarrow> ns_result" where
  "ns_EditAddressState_prompt_user chatbot st =
     ns_write (
        clear_screen @
        ''Edit Patient Address\<newline>\<newline>\<newline>\<newline>\<newline>\<newline>'' @
        ''Type your address and press enter\<newline>'' @ endl) st"

definition ns_EditAddressState_process_input :: "addr option \<Rightarrow> console_input \<Rightarrow> ns_Store \<Rightarrow> ns_result" where
  "ns_EditAddressState_process_input chatbot inp st =
     (let address_in = line_read inp in
      seq (ns_State_set_patient_address chatbot address_in st) (\<lambda>st1.
      ns_State_change_state chatbot StateName_EditOptionsState st1))"

text \<open>EditAge.\<close>

definition ns_EditAgeState_prompt_user :: "addr option \<Rightarrow> ns_Store \<Rightarrow> ns_result" where
  "ns_EditAgeState_prompt_user chatbot st =
     ns_write (
        clear_screen @
        ''Edit Patient Age\<newline>\<newline>\<newline>\<newline>\<newline>\<newline>'' @
        ''Type your age and press enter\<newline>'' @ endl) st"

definition ns_EditAgeState_process_input :: "addr option \<Rightarrow> console_input \<Rightarrow> ns_Store \<Rightarrow> ns_result" where
  "ns_EditAgeState_process_input chatbot inp st =
     (let age_in = int_read inp in
      seq (ns_State_set_patient_age chatbot age_in st) (\<lambda>st1.
      ns_State_change_state chatbot StateName_EditOptionsState st1))"

text \<open>EditHeight.\<close>

definition ns_EditHeightState_prompt_user :: "addr option \<Rightarrow> ns_Store \<Rightarrow> ns_result" where
  "ns_EditHeightState_prompt_user chatbot st =
     ns_write (
        clear_screen @
        ''Edit Patient Height\<newline>\<newline>\<newline>\<newline>\<newline>\<newline>'' @
        ''Type your height and press enter\<newline>'' @ endl) st"

definition ns_EditHeightState_process_input :: "addr option \<Rightarrow> console_input \<Rightarrow> ns_Store \<Rightarrow> ns_result" where
  "ns_EditHeightState_process_input chatbot inp st =
     (let height_in = int_read inp in
      seq (ns_State_set_patient_height chatbot height_in st) (\<lambda>st1.
      ns_State_change_state chatbot StateName_EditOptionsState st1))"

text \<open>ConfirmInfo.\<close>

definition ns_ConfirmInfoState_prompt_user :: "addr option \<Rightarrow> ns_Store \<Rightarrow> ns_result" where
  "ns_ConfirmInfoState_prompt_user chatbot st =
     seq (ns_write clear_screen st) (\<lambda>st1.
     seq (ns_get_patient_info_at chatbot st1) (\<lambda>patient.
     ns_write (
        ''Confirm Info is Correct\<newline>\<newline>\<newline>'' @
        ''Patient Name: '' @ name patient @ ''\<newline>'' @
        ''Patient Address: '' @ address patient @ ''\<newline>'' @
        ''Patient Age: '' @ show_int (age patient) @ ''\<newline>'' @
        ''Patient Height: '' @ show_int (height patient) @ ''\<newline>\<newline>\<newline>'' @
        ''1. Edit Patient Info\<newline>2. Save and Return to Menu\<newline>\<newline>\<newline>'' @
        ''Type a number according to your selection and press enter\<newline>'' @ endl) st1))"

definition ns_ConfirmInfoState_process_input :: "addr option \<Rightarrow> console_input \<Rightarrow> ns_Store \<Rightarrow> ns_result" where
  "ns_ConfirmInfoState_process_input chatbot inp st =
     (let sel = int_read inp in
      if sel = 1 then ns_State_change_state chatbot StateName_EditOptionsState st
      else if sel = 2 then ns_State_change_state chatbot StateName_MainMenuState st
      else Inr st)"

text \<open>EditOptions.\<close>

definition ns_EditOptionsState_prompt_user :: "addr option \<Rightarrow> ns_Store \<Rightarrow> ns_result" where
  "ns_EditOptionsState_prompt_user chatbot st =
     ns_write (
        clear_screen @
        ''Edit Patient Info\<newline>\<newline>\<newline>\<newline>\<newline>'' @
        ''1. Edit Name\<newline>2. Edit Address\<newline>3. Edit Age\<newline>4. Edit Height\<newline>5. Save and Continue\<newline>\<newline>\<newline>'' @
        ''Type a number according to your selection and press enter\<newline>'' @ endl) st"

definition ns_EditOptionsState_process_input :: "addr option \<Rightarrow> console_input \<Rightarrow> ns_Store \<Rightarrow> ns_result" where
  "ns_EditOptionsState_process_input chatbot inp st =
     (let sel = int_read inp in
      if sel = 1 then ns_State_change_state chatbot StateName_EditNameState st
      else if sel = 2 then ns_State_change_state chatbot StateName_EditAddressState st
      else if sel = 3 then ns_State_change_state chatbot StateName_EditAgeState st
      else if sel = 4 then ns_State_change_state chatbot StateName_EditHeightState st
      else if sel = 5 then ns_State_change_state chatbot StateName_ConfirmInfoState st
      else Inr st)"

text \<open>Finished.\<close>

definition ns_FinishedState_prompt_user :: "addr option \<Rightarrow> ns_Store \<Rightarrow> ns_result" where
  "ns_FinishedState_prompt_user chatbot st =
     Inr st"

definition ns_FinishedState_process_input :: "addr option \<Rightarrow> console_input \<Rightarrow> ns_Store \<Rightarrow> ns_result" where
  "ns_FinishedState_process_input chatbot inp st =
     Inr st"

subsection \<open>Virtual calls and the public interface\<close>

text \<open>
  The handler a call through a \<open>State*\<close> runs is that of the class of the member
  pointed to; every class overrides both handlers.
\<close>

fun ns_virtual_prompt_user :: "ns_member \<Rightarrow> addr option \<Rightarrow> ns_Store \<Rightarrow> ns_result" where
  "ns_virtual_prompt_user start_state = ns_StartState_prompt_user"
| "ns_virtual_prompt_user main_menu_state = ns_MainMenuState_prompt_user"
| "ns_virtual_prompt_user collect_name_state = ns_CollectNameState_prompt_user"
| "ns_virtual_prompt_user collect_address_state = ns_CollectAddressState_prompt_user"
| "ns_virtual_prompt_user collect_age_state = ns_CollectAgeState_prompt_user"
| "ns_virtual_prompt_user collect_height_state = ns_CollectHeightState_prompt_user"
| "ns_virtual_prompt_user edit_name_state = ns_EditNameState_prompt_user"
| "ns_virtual_prompt_user edit_address_state = ns_EditAddressState_prompt_user"
| "ns_virtual_prompt_user edit_age_state = ns_EditAgeState_prompt_user"
| "ns_virtual_prompt_user edit_height_state = ns_EditHeightState_prompt_user"
| "ns_virtual_prompt_user confirm_info_state = ns_ConfirmInfoState_prompt_user"
| "ns_virtual_prompt_user edit_options_state = ns_EditOptionsState_prompt_user"
| "ns_virtual_prompt_user finished_state = ns_FinishedState_prompt_user"

fun ns_virtual_process_input :: "ns_member \<Rightarrow> addr option \<Rightarrow> console_input \<Rightarrow> ns_Store \<Rightarrow> ns_result" where
  "ns_virtual_process_input start_state = ns_StartState_process_input"
| "ns_virtual_process_input main_menu_state = ns_MainMenuState_process_input"
| "ns_virtual_process_input collect_name_state = ns_CollectNameState_process_input"
| "ns_virtual_process_input collect_address_state = ns_CollectAddressState_process_input"
| "ns_virtual_process_input collect_age_state = ns_CollectAgeState_process_input"
| "ns_virtual_process_input collect_height_state = ns_CollectHeightState_process_input"
| "ns_virtual_process_input edit_name_state = ns_EditNameState_process_input"
| "ns_virtual_process_input edit_address_state = ns_EditAddressState_process_input"
| "ns_virtual_process_input edit_age_state = ns_EditAgeState_process_input"
| "ns_virtual_process_input edit_height_state = ns_EditHeightState_process_input"
| "ns_virtual_process_input confirm_info_state = ns_ConfirmInfoState_process_input"
| "ns_virtual_process_input edit_options_state = ns_EditOptionsState_process_input"
| "ns_virtual_process_input finished_state = ns_FinishedState_process_input"

text \<open>
  The constructor \<open>ChatBot(StateSet* state_set)\<close> of the bot at address \<open>this\<close>:
  \<open>current_state_\<close> starts null, \<open>state_set_\<close> is the argument, the integers of
  \<open>patient_\<close> are left uninitialised (their values are the parameters); the body calls
  \<open>change_state(StateName::StartState)\<close>.
\<close>

definition ns_ChatBot_ctor :: "addr \<Rightarrow> addr option \<Rightarrow> cint \<Rightarrow> cint \<Rightarrow> ns_Store \<Rightarrow> ns_result" where
  "ns_ChatBot_ctor this state_set age0 height0 st =
     ns_ChatBot_change_state this StateName_StartState
       (st\<lparr>ns_bots := (ns_bots st)(this \<mapsto>
          \<lparr>ns_current_state = None,
           ns_state_set = state_set,
           ns_patient = \<lparr>name = [], address = [], age = age0, height = height0\<rparr>\<rparr>)\<rparr>)"

text \<open>\<open>running\<close>: \<open>current_state_ != state_set_->get_state(StateName::FinishedState)\<close>\<close>

definition ns_ChatBot_running :: "addr \<Rightarrow> ns_Store \<Rightarrow> error + bool" where
  "ns_ChatBot_running this st =
     (case ns_bots st this of
        None \<Rightarrow> Inl DanglingPointer
      | Some b \<Rightarrow>
          seq (ns_get_state_at (ns_state_set b) StateName_FinishedState st) (\<lambda>fin.
          Inr (ns_current_state b \<noteq> fin)))"

text \<open>
  The forwarding members: \<open>current_state_->handler(this)\<close>. The state object pointed
  to has to exist still, that is, its \<open>StateSet\<close> has to be live.
\<close>

definition ns_ChatBot_prompt_user :: "addr \<Rightarrow> ns_Store \<Rightarrow> ns_result" where
  "ns_ChatBot_prompt_user this st =
     (case ns_bots st this of
        None \<Rightarrow> Inl DanglingPointer
      | Some b \<Rightarrow>
          (case ns_current_state b of
             None \<Rightarrow> Inl NullDereference
           | Some (owner, m) \<Rightarrow>
               (case ns_state_sets st owner of
                  None \<Rightarrow> Inl DanglingPointer
                | Some _ \<Rightarrow> ns_virtual_prompt_user m (Some this) st)))"

definition ns_ChatBot_process_input :: "addr \<Rightarrow> console_input \<Rightarrow> ns_Store \<Rightarrow> ns_result" where
  "ns_ChatBot_process_input this inp st =
     (case ns_bots st this of
        None \<Rightarrow> Inl DanglingPointer
      | Some b \<Rightarrow>
          (case ns_current_state b of
             None \<Rightarrow> Inl NullDereference
           | Some (owner, m) \<Rightarrow>
               (case ns_state_sets st owner of
                  None \<Rightarrow> Inl DanglingPointer
                | Some _ \<Rightarrow> ns_virtual_process_input m (Some this) inp st)))"

text \<open>
  The two requests a client can make of a bot, and a schedule of requests, each addressed
  to one bot, served one after the other.
\<close>

datatype ns_request = PromptUser | ProcessInput console_input

fun ns_ChatBot_dispatch :: "addr \<Rightarrow> ns_request \<Rightarrow> ns_Store \<Rightarrow> ns_result" where
  "ns_ChatBot_dispatch this PromptUser st = ns_ChatBot_prompt_user this st"
| "ns_ChatBot_dispatch this (ProcessInput inp) st = ns_ChatBot_process_input this inp st"

fun ns_serve :: "(addr \<times> ns_request) list \<Rightarrow> ns_Store \<Rightarrow> ns_result" where
  "ns_serve [] st = Inr st"
| "ns_serve ((this, req) # rest) st = seq (ns_ChatBot_dispatch this req st) (ns_serve rest)"

subsection \<open>Well-formed bots\<close>

text \<open>
  The bot at address \<open>this\<close> is built on the state set at address \<open>r\<close>: the bot is
  live, its \<open>state_set_\<close> is \<open>r\<close>, the state set at \<open>r\<close> is live and as its
  constructor left it, and \<open>current_state_\<close> is the address of a member of that set.
\<close>

definition ns_built_on :: "addr \<Rightarrow> addr \<Rightarrow> ns_Store \<Rightarrow> bool" where
  "ns_built_on r this st =
     (case ns_bots st this of
        None \<Rightarrow> False
      | Some b \<Rightarrow>
          ns_state_set b = Some r \<and>
          ns_state_sets st r = Some (ns_StateSet_ctor r) \<and>
          (case ns_current_state b of
             None \<Rightarrow> False
           | Some (owner, m) \<Rightarrow> owner = r))"


section \<open>Properties of tcpexample.h\<close>

lemmas tcp_instance_defs =
  TCPEstablished_instance_def TCPListen_instance_def TCPClosed_instance_def

lemmas tcp_change_state_defs =
  TCPState_change_state_def TCPConnection_change_state_def seq_def

lemmas tcp_default_defs =
  TCPState_transmit_def TCPState_active_open_def TCPState_passive_open_def TCPState_close_def
  TCPState_synchronize_def TCPState_acknowledge_def TCPState_send_def

lemmas tcp_override_defs =
  TCPEstablished_transmit_def TCPEstablished_close_def TCPListen_send_def
  TCPClosed_active_open_def TCPClosed_passive_open_def

lemmas tcp_forward_defs =
  TCPConnection_transmit_def TCPConnection_active_open_def TCPConnection_passive_open_def
  TCPConnection_close_def TCPConnection_synchronize_def TCPConnection_acknowledge_def
  TCPConnection_send_def

text \<open>A new connection is in the state Closed.\<close>

lemma TCPConnection_ctor_Closed:
  "TCPConnection_ctor srv = Inr \<lparr>current_state = TCPClosed_instance, is_server = srv\<rparr>"
  by (simp add: TCPConnection_ctor_def TCPConnection_change_state_def TCPClosed_instance_def)

text \<open>
  A connection with a current state serves every request without a fault and keeps a
  current state.
\<close>

lemma tcp_dispatch_total:
  assumes "current_state conn = Some s"
  shows "\<exists>conn' out. TCPConnection_dispatch conn req = Inr (conn', out)
           \<and> current_state conn' \<noteq> None"
  using assms
  by (cases req; cases s)
     (simp_all add: tcp_forward_defs tcp_default_defs tcp_override_defs
        tcp_change_state_defs tcp_instance_defs)

text \<open>A request the state's class does not override runs the base class's handler.\<close>

lemma tcp_unhandled:
  assumes "current_state conn = Some s" and "\<not> tcp_overrides s req"
  shows "TCPConnection_dispatch conn req =
           Inr (conn, ''Error: current state does not implement TCPState::''
                        @ tcp_request_name req @ endl)"
  using assms
  by (cases req; cases s) (simp_all add: tcp_forward_defs tcp_default_defs)

text \<open>
  C1. A connection in the state Closed goes to Listen on \<open>passive_open\<close>, from there to
  Established on \<open>send\<close>, and from there back to Listen on \<open>close\<close>; nothing else
  of the connection changes and nothing is written.
\<close>

theorem tcp_passive_open_send_close:
  "TCPConnection_dispatch (conn\<lparr>current_state := TCPClosed_instance\<rparr>) PassiveOpen
     = Inr (conn\<lparr>current_state := TCPListen_instance\<rparr>, [])
   \<and> TCPConnection_dispatch (conn\<lparr>current_state := TCPListen_instance\<rparr>) Send
     = Inr (conn\<lparr>current_state := TCPEstablished_instance\<rparr>, [])
   \<and> TCPConnection_dispatch (conn\<lparr>current_state := TCPEstablished_instance\<rparr>) Close
     = Inr (conn\<lparr>current_state := TCPListen_instance\<rparr>, [])"
  by (simp add: tcp_forward_defs tcp_override_defs tcp_change_state_defs tcp_instance_defs)


section \<open>Properties of chatbot.h\<close>

lemmas chat_instance_defs =
  chat_StartState_instance_def chat_MainMenuState_instance_def
  chat_CollectNameState_instance_def chat_CollectAddressState_instance_def
  chat_CollectAgeState_instance_def chat_CollectHeightState_instance_def
  chat_EditNameState_instance_def chat_EditAddressState_instance_def
  chat_EditAgeState_instance_def chat_EditHeightState_instance_def
  chat_ConfirmInfoState_instance_def chat_EditOptionsState_instance_def
  chat_FinishedState_instance_def

lemmas chat_context_defs =
  chat_State_change_state_def chat_ChatBot_change_state_def seq_def
  chat_State_set_patient_name_def chat_State_set_patient_address_def
  chat_State_set_patient_age_def chat_State_set_patient_height_def

lemmas chat_process_input_defs =
  chat_StartState_process_input_def chat_MainMenuState_process_input_def
  chat_CollectNameState_process_input_def chat_CollectAddressState_process_input_def
  chat_CollectAgeState_process_input_def chat_CollectHeightState_process_input_def
  chat_EditNameState_process_input_def chat_EditAddressState_process_input_def
  chat_EditAgeState_process_input_def chat_EditHeightState_process_input_def
  chat_ConfirmInfoState_process_input_def chat_EditOptionsState_process_input_def
  chat_FinishedState_process_input_def

text \<open>
  C2. When the class of the current state does not override the handler of a request,
  dispatching the request returns the connection as it was (current state and
  \<open>is_server_\<close>) and writes the base class's diagnostic; the connection serves every
  later request without a fault. In chatbot.h every class overrides both handlers; the
  base class's handlers there likewise return the bot as it was and write a diagnostic.
\<close>

theorem unhandled_request_changes_nothing:
  assumes "current_state conn = Some s" and "\<not> tcp_overrides s req"
  shows "TCPConnection_dispatch conn req =
           Inr (conn, ''Error: current state does not implement TCPState::''
                        @ tcp_request_name req @ endl)
         \<and> (\<forall>req'. \<exists>conn' out. TCPConnection_dispatch conn req' = Inr (conn', out)
                \<and> current_state conn' \<noteq> None)
         \<and> chat_State_prompt_user chatbot =
             Inr (chatbot, ''Error: State does not implement State::prompt_user'' @ endl)
         \<and> chat_State_process_input chatbot inp =
             Inr (chatbot, ''Error: State does not implement State::process_input'' @ endl)"
proof -
  have "\<forall>req'. \<exists>conn' out. TCPConnection_dispatch conn req' = Inr (conn', out)
          \<and> current_state conn' \<noteq> None"
    using tcp_dispatch_total [OF assms(1)] by blast
  then show ?thesis
    using tcp_unhandled [OF assms]
    by (simp add: chat_State_prompt_user_def chat_State_process_input_def)
qed

theorem unhandled_request_changes_nothing_witness:
  "current_state \<lparr>current_state = Some TCPClosed, is_server = True\<rparr> = Some TCPClosed
   \<and> \<not> tcp_overrides TCPClosed Close
   \<and> TCPConnection_dispatch \<lparr>current_state = Some TCPClosed, is_server = True\<rparr> Close
       = Inr (\<lparr>current_state = Some TCPClosed, is_server = True\<rparr>,
              ''Error: current state does not implement TCPState::close'' @ endl)"
  using unhandled_request_changes_nothing
    [of "\<lparr>current_state = Some TCPClosed, is_server = True\<rparr>" TCPClosed Close]
  by simp

text \<open>
  C4. A bot fresh from its constructor that is given any line, then the selection 1, then
  the name Ada, the address 1 Main St, the age 30 and the height 170 is in the state
  ConfirmInfo, and its patient record holds exactly these four values.
\<close>

theorem chat_intake_reaches_confirm:
  "seq (chat_ChatBot_ctor age0 height0) (\<lambda>b0.
     chat_process_inputs b0
       [\<lparr>line_read = l0, int_read = n0\<rparr>,
        \<lparr>line_read = l1, int_read = 1\<rparr>,
        \<lparr>line_read = ''Ada'', int_read = n2\<rparr>,
        \<lparr>line_read = ''1 Main St'', int_read = n3\<rparr>,
        \<lparr>line_read = l4, int_read = 30\<rparr>,
        \<lparr>line_read = l5, int_read = 170\<rparr>])
   = Inr \<lparr>chat_current_state = chat_ConfirmInfoState_instance,
          chat_patient = \<lparr>name = ''Ada'', address = ''1 Main St'', age = 30, height = 170\<rparr>\<rparr>
   \<and> map_sum id chat_ChatBot_get_patient_info
       (seq (chat_ChatBot_ctor age0 height0) (\<lambda>b0.
         chat_process_inputs b0
           [\<lparr>line_read = l0, int_read = n0\<rparr>,
            \<lparr>line_read = l1, int_read = 1\<rparr>,
            \<lparr>line_read = ''Ada'', int_read = n2\<rparr>,
            \<lparr>line_read = ''1 Main St'', int_read = n3\<rparr>,
            \<lparr>line_read = l4, int_read = 30\<rparr>,
            \<lparr>line_read = l5, int_read = 170\<rparr>]))
     = Inr \<lparr>name = ''Ada'', address = ''1 Main St'', age = 30, height = 170\<rparr>"
  by (simp add: chat_ChatBot_ctor_def chat_ChatBot_process_input_def chat_process_input_defs
        chat_context_defs chat_instance_defs chat_ChatBot_get_patient_info_def)

text \<open>
  C5. In ConfirmInfo the selection 2 leads to MainMenu and the selection 1 to EditOptions.
  From EditOptions the selection 3, the age 31 and the selection 5 lead back to
  ConfirmInfo, with the age 31 and the name, address and height as they were.
\<close>

theorem chat_confirm_and_edit_age:
  "chat_ChatBot_process_input (chatbot\<lparr>chat_current_state := chat_ConfirmInfoState_instance\<rparr>)
       \<lparr>line_read = l, int_read = 2\<rparr>
     = Inr (chatbot\<lparr>chat_current_state := chat_MainMenuState_instance\<rparr>, [])
   \<and> chat_ChatBot_process_input (chatbot\<lparr>chat_current_state := chat_ConfirmInfoState_instance\<rparr>)
       \<lparr>line_read = l, int_read = 1\<rparr>
     = Inr (chatbot\<lparr>chat_current_state := chat_EditOptionsState_instance\<rparr>, [])
   \<and> chat_process_inputs (chatbot\<lparr>chat_current_state := chat_EditOptionsState_instance\<rparr>)
       [\<lparr>line_read = l1, int_read = 3\<rparr>,
        \<lparr>line_read = l2, int_read = 31\<rparr>,
        \<lparr>line_read = l3, int_read = 5\<rparr>]
     = Inr (chatbot\<lparr>chat_current_state := chat_ConfirmInfoState_instance,
                    chat_patient := (chat_patient chatbot)\<lparr>age := 31\<rparr>\<rparr>)"
  by (simp add: chat_ChatBot_process_input_def chat_process_input_defs
        chat_context_defs chat_instance_defs)

text \<open>
  C6. In MainMenu the selection 2 leads to Finished, where \<open>running\<close> is false; and
  \<open>running\<close> is false exactly when the current state is the instance of Finished.
\<close>

theorem chat_exit_reaches_finished:
  "chat_ChatBot_process_input (chatbot\<lparr>chat_current_state := chat_MainMenuState_instance\<rparr>)
       \<lparr>line_read = l, int_read = 2\<rparr>
     = Inr (chatbot\<lparr>chat_current_state := chat_FinishedState_instance\<rparr>, [])
   \<and> \<not> chat_ChatBot_running (chatbot\<lparr>chat_current_state := chat_FinishedState_instance\<rparr>)
   \<and> (\<forall>b. (\<not> chat_ChatBot_running b) = (chat_current_state b = chat_FinishedState_instance))"
  by (simp add: chat_ChatBot_process_input_def chat_process_input_defs
        chat_context_defs chat_instance_defs chat_ChatBot_running_def)

text \<open>
  C10. In MainMenu and ConfirmInfo an integer other than 1 and 2, and in EditOptions an
  integer other than 1 to 5, is ignored: \<open>process_input\<close> returns the bot with its
  current state and patient record as they were and writes nothing.
\<close>

theorem chat_menu_unlisted_selection:
  "(int_read inp \<noteq> 1 \<and> int_read inp \<noteq> 2 \<longrightarrow>
      chat_ChatBot_process_input (chatbot\<lparr>chat_current_state := chat_MainMenuState_instance\<rparr>) inp
        = Inr (chatbot\<lparr>chat_current_state := chat_MainMenuState_instance\<rparr>, [])
      \<and> chat_ChatBot_process_input (chatbot\<lparr>chat_current_state := chat_ConfirmInfoState_instance\<rparr>) inp
        = Inr (chatbot\<lparr>chat_current_state := chat_ConfirmInfoState_instance\<rparr>, []))
   \<and> (int_read inp \<notin> {1, 2, 3, 4, 5} \<longrightarrow>
      chat_ChatBot_process_input (chatbot\<lparr>chat_current_state := chat_EditOptionsState_instance\<rparr>) inp
        = Inr (chatbot\<lparr>chat_current_state := chat_EditOptionsState_instance\<rparr>, []))"
  by (simp add: chat_ChatBot_process_input_def chat_process_input_defs
        chat_context_defs chat_instance_defs)

theorem chat_menu_unlisted_selection_witness:
  "int_read \<lparr>line_read = [], int_read = 7\<rparr> \<notin> {1, 2, 3, 4, 5}
   \<and> chat_ChatBot_process_input
       \<lparr>chat_current_state = chat_MainMenuState_instance,
        chat_patient = \<lparr>name = ''Ada'', address = ''1 Main St'', age = 30, height = 170\<rparr>\<rparr>
       \<lparr>line_read = [], int_read = 7\<rparr>
     = Inr (\<lparr>chat_current_state = chat_MainMenuState_instance,
             chat_patient = \<lparr>name = ''Ada'', address = ''1 Main St'', age = 30, height = 170\<rparr>\<rparr>, [])
   \<and> chat_ChatBot_process_input
       \<lparr>chat_current_state = chat_ConfirmInfoState_instance,
        chat_patient = \<lparr>name = ''Ada'', address = ''1 Main St'', age = 30, height = 170\<rparr>\<rparr>
       \<lparr>line_read = [], int_read = 7\<rparr>
     = Inr (\<lparr>chat_current_state = chat_ConfirmInfoState_instance,
             chat_patient = \<lparr>name = ''Ada'', address = ''1 Main St'', age = 30, height = 170\<rparr>\<rparr>, [])
   \<and> chat_ChatBot_process_input
       \<lparr>chat_current_state = chat_EditOptionsState_instance,
        chat_patient = \<lparr>name = ''Ada'', address = ''1 Main St'', age = 30, height = 170\<rparr>\<rparr>
       \<lparr>line_read = [], int_read = 7\<rparr>
     = Inr (\<lparr>chat_current_state = chat_EditOptionsState_instance,
             chat_patient = \<lparr>name = ''Ada'', address = ''1 Main St'', age = 30, height = 170\<rparr>\<rparr>, [])"
  using chat_menu_unlisted_selection
    [of "\<lparr>line_read = [], int_read = 7\<rparr>"
        "\<lparr>chat_current_state = None,
          chat_patient = \<lparr>name = ''Ada'', address = ''1 Main St'', age = 30, height = 170\<rparr>\<rparr>"]
  by simp


section \<open>Properties of nosingleton.h\<close>

lemmas ns_context_defs =
  ns_State_change_state_def ns_ChatBot_change_state_def ns_get_state_at_def
  ns_StateSet_get_state_def ns_update_patient_def
  ns_State_set_patient_name_def ns_State_set_patient_address_def
  ns_State_set_patient_age_def ns_State_set_patient_height_def
  ns_get_patient_info_at_def ns_write_def seq_def

lemmas ns_prompt_user_defs =
  ns_StartState_prompt_user_def ns_MainMenuState_prompt_user_def
  ns_CollectNameState_prompt_user_def ns_CollectAddressState_prompt_user_def
  ns_CollectAgeState_prompt_user_def ns_CollectHeightState_prompt_user_def
  ns_EditNameState_prompt_user_def ns_EditAddressState_prompt_user_def
  ns_EditAgeState_prompt_user_def ns_EditHeightState_prompt_user_def
  ns_ConfirmInfoState_prompt_user_def ns_EditOptionsState_prompt_user_def
  ns_FinishedState_prompt_user_def

lemmas ns_process_input_defs =
  ns_StartState_process_input_def ns_MainMenuState_process_input_def
  ns_CollectNameState_process_input_def ns_CollectAddressState_process_input_def
  ns_CollectAgeState_process_input_def ns_CollectHeightState_process_input_def
  ns_EditNameState_process_input_def ns_EditAddressState_process_input_def
  ns_EditAgeState_process_input_def ns_EditHeightState_process_input_def
  ns_ConfirmInfoState_process_input_def ns_EditOptionsState_process_input_def
  ns_FinishedState_process_input_def

text \<open>The constructed state set has a non-null member of its own under every enumerator.\<close>

lemma ns_registry_complete:
  "\<exists>m. ns_states (ns_StateSet_ctor r) nm = Some (Some (r, m))"
  by (cases nm) (simp_all add: ns_StateSet_ctor_def)

lemma ns_get_state_constructed:
  assumes "ns_state_sets st r = Some (ns_StateSet_ctor r)"
  shows "\<exists>m. ns_get_state_at (Some r) nm st = Inr (Some (r, m))"
proof -
  obtain m where "ns_states (ns_StateSet_ctor r) nm = Some (Some (r, m))"
    using ns_registry_complete by blast
  then show ?thesis
    using assms by (simp add: ns_get_state_at_def ns_StateSet_get_state_def)
qed

text \<open>
  Frame: a request served by the bot at \<open>a\<close> leaves every state set and every other bot
  as it was.
\<close>

lemma ns_process_input_frame:
  assumes "ns_ChatBot_process_input a inp st = Inr st'"
  shows "ns_state_sets st' = ns_state_sets st \<and> ns_bots st' = (ns_bots st)(a := ns_bots st' a)"
proof -
  obtain b owner m where b: "ns_bots st a = Some b" "ns_current_state b = Some (owner, m)"
    using assms by (auto simp: ns_ChatBot_process_input_def split: option.splits)
  then have "ns_virtual_process_input m (Some a) inp st = Inr st'"
    using assms by (auto simp: ns_ChatBot_process_input_def split: option.splits)
  then show ?thesis
    by (cases m)
       (auto simp: ns_process_input_defs ns_context_defs Let_def
             split: option.splits if_splits sum.splits)
qed

lemma ns_prompt_user_frame:
  assumes "ns_ChatBot_prompt_user a st = Inr st'"
  shows "ns_state_sets st' = ns_state_sets st \<and> ns_bots st' = ns_bots st"
proof -
  obtain b owner m where b: "ns_bots st a = Some b" "ns_current_state b = Some (owner, m)"
    using assms by (auto simp: ns_ChatBot_prompt_user_def split: option.splits)
  then have "ns_virtual_prompt_user m (Some a) st = Inr st'"
    using assms by (auto simp: ns_ChatBot_prompt_user_def split: option.splits)
  then show ?thesis
    by (cases m)
       (auto simp: ns_prompt_user_defs ns_context_defs Let_def
             split: option.splits if_splits sum.splits)
qed

text \<open>A well-formed bot serves a request without a fault and stays well-formed.\<close>

lemma ns_process_input_built_on:
  assumes "ns_built_on r a st"
  shows "\<exists>st'. ns_ChatBot_process_input a inp st = Inr st' \<and> ns_built_on r a st'"
proof -
  obtain b m where b: "ns_bots st a = Some b" "ns_state_set b = Some r"
      "ns_state_sets st r = Some (ns_StateSet_ctor r)" "ns_current_state b = Some (r, m)"
    using assms by (auto simp: ns_built_on_def split: option.splits)
  then have "ns_ChatBot_process_input a inp st = ns_virtual_process_input m (Some a) inp st"
    by (simp add: ns_ChatBot_process_input_def)
  moreover have "\<exists>st'. ns_virtual_process_input m (Some a) inp st = Inr st' \<and> ns_built_on r a st'"
    using b
    by (cases m)
       (simp_all add: ns_process_input_defs ns_context_defs Let_def ns_StateSet_ctor_def
          ns_built_on_def)
  ultimately show ?thesis by simp
qed

lemma ns_prompt_user_built_on:
  assumes "ns_built_on r a st"
  shows "\<exists>st'. ns_ChatBot_prompt_user a st = Inr st' \<and> ns_built_on r a st'"
proof -
  obtain b m where b: "ns_bots st a = Some b" "ns_state_set b = Some r"
      "ns_state_sets st r = Some (ns_StateSet_ctor r)" "ns_current_state b = Some (r, m)"
    using assms by (auto simp: ns_built_on_def split: option.splits)
  then have "ns_ChatBot_prompt_user a st = ns_virtual_prompt_user m (Some a) st"
    by (simp add: ns_ChatBot_prompt_user_def)
  moreover have "\<exists>st'. ns_virtual_prompt_user m (Some a) st = Inr st' \<and> ns_built_on r a st'"
    using b
    by (cases m)
       (simp_all add: ns_prompt_user_defs ns_context_defs Let_def ns_StateSet_ctor_def
          ns_built_on_def)
  ultimately show ?thesis by simp
qed

text \<open>
  Locality: what a request makes of a well-formed bot depends on the bot alone, not on
  the rest of the store.
\<close>

lemma ns_process_input_local:
  assumes "ns_built_on r a st" and "ns_built_on r a st2" and "ns_bots st2 a = ns_bots st a"
    and "ns_ChatBot_process_input a inp st = Inr st'"
    and "ns_ChatBot_process_input a inp st2 = Inr st2'"
  shows "ns_bots st2' a = ns_bots st' a"
proof -
  obtain b m where b: "ns_bots st a = Some b" "ns_state_set b = Some r"
      "ns_state_sets st r = Some (ns_StateSet_ctor r)" "ns_current_state b = Some (r, m)"
    using assms(1) by (auto simp: ns_built_on_def split: option.splits)
  have b2: "ns_bots st2 a = Some b" "ns_state_sets st2 r = Some (ns_StateSet_ctor r)"
    using assms(2,3) b by (auto simp: ns_built_on_def split: option.splits)
  have "ns_virtual_process_input m (Some a) inp st = Inr st'"
    using assms(4) b by (simp add: ns_ChatBot_process_input_def)
  moreover have "ns_virtual_process_input m (Some a) inp st2 = Inr st2'"
    using assms(5) b b2 by (simp add: ns_ChatBot_process_input_def)
  ultimately show ?thesis
    using b b2
    by (cases m)
       (auto simp: ns_process_input_defs ns_context_defs Let_def ns_StateSet_ctor_def
             split: if_splits)
qed

lemma ns_dispatch_frame:
  assumes "ns_ChatBot_dispatch a req st = Inr st'"
  shows "ns_state_sets st' = ns_state_sets st \<and> ns_bots st' = (ns_bots st)(a := ns_bots st' a)"
proof (cases req)
  case PromptUser
  then have "ns_state_sets st' = ns_state_sets st \<and> ns_bots st' = ns_bots st"
    using assms ns_prompt_user_frame by simp
  then show ?thesis by simp
next
  case (ProcessInput inp)
  then show ?thesis using assms ns_process_input_frame by simp
qed

lemma ns_dispatch_built_on:
  assumes "ns_built_on r a st"
  shows "\<exists>st'. ns_ChatBot_dispatch a req st = Inr st' \<and> ns_built_on r a st'"
  using assms ns_prompt_user_built_on ns_process_input_built_on
  by (cases req) simp_all

lemma ns_dispatch_local:
  assumes "ns_built_on r a st" and "ns_built_on r a st2" and "ns_bots st2 a = ns_bots st a"
    and "ns_ChatBot_dispatch a req st = Inr st'"
    and "ns_ChatBot_dispatch a req st2 = Inr st2'"
  shows "ns_bots st2' a = ns_bots st' a"
proof (cases req)
  case PromptUser
  then have "ns_bots st' = ns_bots st" and "ns_bots st2' = ns_bots st2"
    using assms(4,5) ns_prompt_user_frame by simp_all
  then show ?thesis using assms(3) by simp
next
  case (ProcessInput inp)
  then show ?thesis
    using assms ns_process_input_local [of r a st st2 inp st' st2'] by simp
qed

lemma ns_built_on_cong:
  assumes "ns_built_on r x st" and "ns_state_sets st' = ns_state_sets st"
    and "ns_bots st' x = ns_bots st x"
  shows "ns_built_on r x st'"
  using assms by (auto simp: ns_built_on_def split: option.splits)

lemma ns_serve_frame:
  assumes "ns_serve evs st = Inr st'"
  shows "ns_state_sets st' = ns_state_sets st
         \<and> (x \<notin> fst ` set evs \<longrightarrow> ns_bots st' x = ns_bots st x)"
  using assms
proof (induction evs arbitrary: st)
  case Nil
  then show ?case by simp
next
  case (Cons e evs)
  obtain a req where e: "e = (a, req)" by (cases e)
  obtain s where s: "ns_ChatBot_dispatch a req st = Inr s" and rest: "ns_serve evs s = Inr st'"
    using Cons.prems e by (auto simp: seq_def split: sum.splits)
  have fr: "ns_state_sets s = ns_state_sets st" "ns_bots s = (ns_bots st)(a := ns_bots s a)"
    using ns_dispatch_frame [OF s] by simp_all
  have "x \<noteq> a \<Longrightarrow> ns_bots s x = ns_bots st x"
    using fr(2) by (metis fun_upd_other)
  then show ?case
    using Cons.IH [OF rest] fr(1) e by auto
qed

text \<open>
  Serving a schedule for two bots and serving only the requests addressed to one of
  them leave that bot the same.
\<close>

lemma ns_serve_project:
  assumes "b1 \<noteq> b2" and "ns_built_on r b1 st" and "ns_built_on r b2 st"
    and "fst ` set evs \<subseteq> {b1, b2}"
    and "b = b1 \<or> b = b2"
    and "ns_built_on r b st2" and "ns_bots st2 b = ns_bots st b"
  shows "\<exists>st' st2'. ns_serve evs st = Inr st'
           \<and> ns_serve (filter (\<lambda>e. fst e = b) evs) st2 = Inr st2'
           \<and> ns_bots st2' b = ns_bots st' b
           \<and> ns_built_on r b1 st' \<and> ns_built_on r b2 st'"
  using assms
proof (induction evs arbitrary: st st2)
  case Nil
  then show ?case by simp
next
  case (Cons e evs)
  obtain a req where e: "e = (a, req)" by (cases e)
  have a: "a = b1 \<or> a = b2" using Cons.prems(4) e by simp
  then have wa: "ns_built_on r a st" using Cons.prems(2,3) by blast
  obtain s where s: "ns_ChatBot_dispatch a req st = Inr s" and ws: "ns_built_on r a s"
    using ns_dispatch_built_on [OF wa] by blast
  have fr: "ns_state_sets s = ns_state_sets st" "ns_bots s = (ns_bots st)(a := ns_bots s a)"
    using ns_dispatch_frame [OF s] by simp_all
  have other: "\<And>x. x \<noteq> a \<Longrightarrow> ns_bots s x = ns_bots st x"
    using fr(2) by (metis fun_upd_other)
  have w1: "ns_built_on r b1 s"
    using ws Cons.prems(2) fr(1) other ns_built_on_cong by (cases "a = b1") auto
  have w2: "ns_built_on r b2 s"
    using ws Cons.prems(3) fr(1) other ns_built_on_cong by (cases "a = b2") auto
  have sub: "fst ` set evs \<subseteq> {b1, b2}" using Cons.prems(4) by auto
  show ?case
  proof (cases "a = b")
    case True
    obtain s2 where s2: "ns_ChatBot_dispatch b req st2 = Inr s2" and ws2: "ns_built_on r b s2"
      using ns_dispatch_built_on [OF Cons.prems(6)] by blast
    have wb: "ns_built_on r b st" using wa True by simp
    have eq: "ns_bots s2 b = ns_bots s b"
      using ns_dispatch_local [OF wb Cons.prems(6) Cons.prems(7) _ s2] s True by simp
    obtain st' st2' where "ns_serve evs s = Inr st'"
        "ns_serve (filter (\<lambda>e. fst e = b) evs) s2 = Inr st2'"
        "ns_bots st2' b = ns_bots st' b" "ns_built_on r b1 st'" "ns_built_on r b2 st'"
      using Cons.IH [OF Cons.prems(1) w1 w2 sub Cons.prems(5) ws2 eq] by blast
    then show ?thesis
      using s s2 e True by (simp add: seq_def)
  next
    case False
    have eq: "ns_bots st2 b = ns_bots s b"
      using Cons.prems(7) other False by simp
    obtain st' st2' where "ns_serve evs s = Inr st'"
        "ns_serve (filter (\<lambda>e. fst e = b) evs) st2 = Inr st2'"
        "ns_bots st2' b = ns_bots st' b" "ns_built_on r b1 st'" "ns_built_on r b2 st'"
      using Cons.IH [OF Cons.prems(1) w1 w2 sub Cons.prems(5) Cons.prems(6) eq] by blast
    then show ?thesis
      using s e False by (simp add: seq_def)
  qed
qed

text \<open>
  C7. Two distinct bots built on one state set, served any schedule of requests addressed
  to either of them: the schedule is served without a fault, each bot ends as it would
  have had only its own requests been served, and serving the requests of one bot
  alone leaves the other as it was.
\<close>

theorem two_bots_isolated:
  assumes "b1 \<noteq> b2" and "ns_built_on r b1 st" and "ns_built_on r b2 st"
    and "fst ` set evs \<subseteq> {b1, b2}"
  shows "\<exists>st' st1 st2.
           ns_serve evs st = Inr st'
         \<and> ns_serve (filter (\<lambda>e. fst e = b1) evs) st = Inr st1
         \<and> ns_serve (filter (\<lambda>e. fst e = b2) evs) st = Inr st2
         \<and> ns_bots st' b1 = ns_bots st1 b1 \<and> ns_bots st' b2 = ns_bots st2 b2
         \<and> ns_bots st1 b2 = ns_bots st b2 \<and> ns_bots st2 b1 = ns_bots st b1"
proof -
  obtain st' st1 where 1: "ns_serve evs st = Inr st'"
      "ns_serve (filter (\<lambda>e. fst e = b1) evs) st = Inr st1" "ns_bots st1 b1 = ns_bots st' b1"
    using ns_serve_project [OF assms(1-4), of b1 st] assms(2) by auto
  obtain st'' st2 where 2: "ns_serve evs st = Inr st''"
      "ns_serve (filter (\<lambda>e. fst e = b2) evs) st = Inr st2" "ns_bots st2 b2 = ns_bots st'' b2"
    using ns_serve_project [OF assms(1-4), of b2 st] assms(3) by auto
  have "b2 \<notin> fst ` set (filter (\<lambda>e. fst e = b1) evs)" using assms(1) by auto
  then have 3: "ns_bots st1 b2 = ns_bots st b2"
    using ns_serve_frame [OF 1(2), of b2] by simp
  have "b1 \<notin> fst ` set (filter (\<lambda>e. fst e = b2) evs)" using assms(1) by auto
  then have 4: "ns_bots st2 b1 = ns_bots st b1"
    using ns_serve_frame [OF 2(2), of b1] by simp
  show ?thesis using 1 2 3 4 by auto
qed

theorem two_bots_isolated_witness:
  "let st = \<lparr>ns_state_sets = [0 \<mapsto> ns_StateSet_ctor 0],
             ns_bots = [1 \<mapsto> \<lparr>ns_current_state = Some (0, start_state), ns_state_set = Some 0,
                              ns_patient = \<lparr>name = [], address = [], age = 0, height = 0\<rparr>\<rparr>,
                        2 \<mapsto> \<lparr>ns_current_state = Some (0, main_menu_state), ns_state_set = Some 0,
                              ns_patient = \<lparr>name = [], address = [], age = 0, height = 0\<rparr>\<rparr>],
             ns_cout = []\<rparr>;
       evs = [(1, ProcessInput \<lparr>line_read = ''go'', int_read = 0\<rparr>),
              (2, ProcessInput \<lparr>line_read = [], int_read = 1\<rparr>),
              (1, PromptUser),
              (2, ProcessInput \<lparr>line_read = ''Ada'', int_read = 0\<rparr>)]
   in (1::nat) \<noteq> 2 \<and> ns_built_on 0 1 st \<and> ns_built_on 0 2 st \<and> fst ` set evs \<subseteq> {1, 2}
      \<and> (\<exists>st' st1 st2.
           ns_serve evs st = Inr st'
         \<and> ns_serve (filter (\<lambda>e. fst e = 1) evs) st = Inr st1
         \<and> ns_serve (filter (\<lambda>e. fst e = 2) evs) st = Inr st2
         \<and> ns_bots st' 1 = ns_bots st1 1 \<and> ns_bots st' 2 = ns_bots st2 2
         \<and> ns_bots st1 2 = ns_bots st 2 \<and> ns_bots st2 1 = ns_bots st 1)"
proof -
  let ?st = "\<lparr>ns_state_sets = [0 \<mapsto> ns_StateSet_ctor 0],
             ns_bots = [1 \<mapsto> \<lparr>ns_current_state = Some (0, start_state), ns_state_set = Some 0,
                              ns_patient = \<lparr>name = [], address = [], age = 0, height = 0\<rparr>\<rparr>,
                        2 \<mapsto> \<lparr>ns_current_state = Some (0, main_menu_state), ns_state_set = Some 0,
                              ns_patient = \<lparr>name = [], address = [], age = 0, height = 0\<rparr>\<rparr>],
             ns_cout = []\<rparr>"
  let ?evs = "[(1::nat, ProcessInput \<lparr>line_read = ''go'', int_read = 0\<rparr>),
              (2, ProcessInput \<lparr>line_read = [], int_read = 1\<rparr>),
              (1, PromptUser),
              (2, ProcessInput \<lparr>line_read = ''Ada'', int_read = 0\<rparr>)]"
  have h0: "(1::nat) \<noteq> 2" by simp
  have h1: "ns_built_on 0 1 ?st" by (simp add: ns_built_on_def)
  have h2: "ns_built_on 0 2 ?st" by (simp add: ns_built_on_def)
  have h3: "fst ` set ?evs \<subseteq> {1, 2}" by simp
  note two_bots_isolated [OF h0 h1 h2 h3]
  with h0 h1 h2 h3 show ?thesis unfolding Let_def by blast
qed

text \<open>No member of the constructed state set is stored under two enumerators.\<close>

lemma ns_registry_inject:
  assumes "ns_states (ns_StateSet_ctor r) nm = Some (Some (r, m))"
    and "ns_states (ns_StateSet_ctor r) nm' = Some (Some (r, m))"
  shows "nm' = nm"
  using assms by (cases nm; cases nm') (simp_all add: ns_StateSet_ctor_def)

text \<open>Constructing a bot leaves the state sets as they were.\<close>

lemma ns_ChatBot_ctor_frame:
  assumes "ns_ChatBot_ctor b p age0 height0 st = Inr st'"
  shows "ns_state_sets st' = ns_state_sets st"
  using assms
  by (auto simp: ns_ChatBot_ctor_def ns_ChatBot_change_state_def seq_def
           split: option.splits sum.splits)

lemma ns_get_state_at_cong:
  assumes "ns_state_sets st' = ns_state_sets st"
  shows "ns_get_state_at p nm st' = ns_get_state_at p nm st"
  using assms by (cases p) (simp_all add: ns_get_state_at_def)

text \<open>A bot built on a live, constructed state set leaves its constructor well-formed.\<close>

lemma ns_ChatBot_ctor_built_on:
  assumes "ns_state_sets st r = Some (ns_StateSet_ctor r)"
  shows "\<exists>st'. ns_ChatBot_ctor b (Some r) age0 height0 st = Inr st' \<and> ns_built_on r b st'"
  using assms
  by (simp add: ns_ChatBot_ctor_def ns_ChatBot_change_state_def ns_get_state_at_def
        ns_StateSet_get_state_def seq_def ns_StateSet_ctor_def ns_built_on_def)

text \<open>
  C3. In the store in which a state set has just been constructed at \<open>r\<close>,
  \<open>get_state\<close> succeeds for every enumerator (neither assertion fires) and returns the
  address of a member of that set, and no other enumerator resolves to that member. A
  bot can then be built on the set, and after that, and after any schedule of requests
  that has been served, \<open>get_state\<close> returns the same member for the enumerator.
\<close>

theorem registry_resolves_every_name:
  "\<exists>m st1.
       ns_get_state_at (Some r) nm (ns_new_StateSet r st) = Inr (Some (r, m))
     \<and> (\<forall>nm'. ns_get_state_at (Some r) nm' (ns_new_StateSet r st) = Inr (Some (r, m))
            \<longrightarrow> nm' = nm)
     \<and> ns_ChatBot_ctor b (Some r) age0 height0 (ns_new_StateSet r st) = Inr st1
     \<and> ns_get_state_at (Some r) nm st1 = Inr (Some (r, m))
     \<and> (\<forall>evs st2. ns_serve evs st1 = Inr st2
            \<longrightarrow> ns_get_state_at (Some r) nm st2 = Inr (Some (r, m)))"
proof -
  let ?st0 = "ns_new_StateSet r st"
  have live: "ns_state_sets ?st0 r = Some (ns_StateSet_ctor r)"
    by (simp add: ns_new_StateSet_def)
  obtain m where m: "ns_states (ns_StateSet_ctor r) nm = Some (Some (r, m))"
    using ns_registry_complete by blast
  have g0: "ns_get_state_at (Some r) nm ?st0 = Inr (Some (r, m))"
    using live m by (simp add: ns_get_state_at_def ns_StateSet_get_state_def)
  have inj: "nm' = nm" if "ns_get_state_at (Some r) nm' ?st0 = Inr (Some (r, m))" for nm'
  proof -
    have "ns_states (ns_StateSet_ctor r) nm' = Some (Some (r, m))"
      using that live
      by (auto simp: ns_get_state_at_def ns_StateSet_get_state_def split: option.splits)
    then show ?thesis using m ns_registry_inject by blast
  qed
  obtain st1 where c: "ns_ChatBot_ctor b (Some r) age0 height0 ?st0 = Inr st1"
    using ns_ChatBot_ctor_built_on [OF live] by blast
  have s1: "ns_state_sets st1 = ns_state_sets ?st0"
    using ns_ChatBot_ctor_frame [OF c] .
  have g1: "ns_get_state_at (Some r) nm st1 = Inr (Some (r, m))"
    using g0 ns_get_state_at_cong [OF s1] by simp
  have g2: "ns_get_state_at (Some r) nm st2 = Inr (Some (r, m))"
    if "ns_serve evs st1 = Inr st2" for evs st2
  proof -
    have "ns_state_sets st2 = ns_state_sets st1"
      using ns_serve_frame [OF that] by simp
    then have "ns_get_state_at (Some r) nm st2 = ns_get_state_at (Some r) nm st1"
      by (rule ns_get_state_at_cong)
    then show ?thesis using g1 by simp
  qed
  from g0 inj c g1 g2 show ?thesis by blast
qed

theorem registry_resolves_every_name_witness:
  "ns_ChatBot_ctor 0 (Some 0) 0 0
       (ns_new_StateSet 0 \<lparr>ns_state_sets = Map.empty, ns_bots = Map.empty, ns_cout = []\<rparr>)
     = Inr \<lparr>ns_state_sets = [0 \<mapsto> ns_StateSet_ctor 0],
            ns_bots = [0 \<mapsto> \<lparr>ns_current_state = Some (0, start_state), ns_state_set = Some 0,
                             ns_patient = \<lparr>name = [], address = [], age = 0, height = 0\<rparr>\<rparr>],
            ns_cout = []\<rparr>
   \<and> ns_serve [(0, ProcessInput \<lparr>line_read = ''go'', int_read = 0\<rparr>)]
       \<lparr>ns_state_sets = [0 \<mapsto> ns_StateSet_ctor 0],
        ns_bots = [0 \<mapsto> \<lparr>ns_current_state = Some (0, start_state), ns_state_set = Some 0,
                         ns_patient = \<lparr>name = [], address = [], age = 0, height = 0\<rparr>\<rparr>],
        ns_cout = []\<rparr>
     = Inr \<lparr>ns_state_sets = [0 \<mapsto> ns_StateSet_ctor 0],
            ns_bots = [0 \<mapsto> \<lparr>ns_current_state = Some (0, main_menu_state), ns_state_set = Some 0,
                             ns_patient = \<lparr>name = [], address = [], age = 0, height = 0\<rparr>\<rparr>],
            ns_cout = ''Contents: (go)'' @ endl\<rparr>
   \<and> ns_get_state_at (Some 0) StateName_FinishedState
       (ns_new_StateSet 0 \<lparr>ns_state_sets = Map.empty, ns_bots = Map.empty, ns_cout = []\<rparr>)
     = Inr (Some (0, finished_state))
   \<and> ns_get_state_at (Some 0) StateName_FinishedState
       \<lparr>ns_state_sets = [0 \<mapsto> ns_StateSet_ctor 0],
        ns_bots = [0 \<mapsto> \<lparr>ns_current_state = Some (0, main_menu_state), ns_state_set = Some 0,
                         ns_patient = \<lparr>name = [], address = [], age = 0, height = 0\<rparr>\<rparr>],
        ns_cout = ''Contents: (go)'' @ endl\<rparr>
     = Inr (Some (0, finished_state))"
proof -
  let ?st = "\<lparr>ns_state_sets = Map.empty, ns_bots = Map.empty, ns_cout = []\<rparr>"
  let ?st1 = "\<lparr>ns_state_sets = [0 \<mapsto> ns_StateSet_ctor 0],
            ns_bots = [0 \<mapsto> \<lparr>ns_current_state = Some (0, start_state), ns_state_set = Some 0,
                             ns_patient = \<lparr>name = [], address = [], age = 0, height = 0\<rparr>\<rparr>],
            ns_cout = []\<rparr>"
  let ?st2 = "\<lparr>ns_state_sets = [0 \<mapsto> ns_StateSet_ctor 0],
            ns_bots = [0 \<mapsto> \<lparr>ns_current_state = Some (0, main_menu_state), ns_state_set = Some 0,
                             ns_patient = \<lparr>name = [], address = [], age = 0, height = 0\<rparr>\<rparr>],
            ns_cout = ''Contents: (go)'' @ endl\<rparr>"
  have h1: "ns_ChatBot_ctor 0 (Some 0) 0 0 (ns_new_StateSet 0 ?st) = Inr ?st1"
    by (simp add: ns_ChatBot_ctor_def ns_new_StateSet_def ns_ChatBot_change_state_def
          ns_get_state_at_def ns_StateSet_get_state_def seq_def ns_StateSet_ctor_def)
  have h2: "ns_serve [(0, ProcessInput \<lparr>line_read = ''go'', int_read = 0\<rparr>)] ?st1 = Inr ?st2"
    by (simp add: ns_ChatBot_process_input_def ns_StartState_process_input_def
          ns_State_change_state_def ns_ChatBot_change_state_def ns_write_def
          ns_get_state_at_def ns_StateSet_get_state_def seq_def ns_StateSet_ctor_def)
  have h3: "ns_get_state_at (Some 0) StateName_FinishedState (ns_new_StateSet 0 ?st)
              = Inr (Some (0, finished_state))"
    by (simp add: ns_new_StateSet_def ns_get_state_at_def ns_StateSet_get_state_def
          ns_StateSet_ctor_def)
  obtain m st1 where
      g0: "ns_get_state_at (Some 0) StateName_FinishedState (ns_new_StateSet 0 ?st)
             = Inr (Some (0, m))"
    and c: "ns_ChatBot_ctor 0 (Some 0) 0 0 (ns_new_StateSet 0 ?st) = Inr st1"
    and g2: "\<And>evs st2. ns_serve evs st1 = Inr st2 \<Longrightarrow>
               ns_get_state_at (Some 0) StateName_FinishedState st2 = Inr (Some (0, m))"
    using registry_resolves_every_name [of 0 StateName_FinishedState ?st 0 0 0] by blast
  have "m = finished_state" using g0 h3 by simp
  moreover have "st1 = ?st1" using c h1 by simp
  ultimately have "ns_get_state_at (Some 0) StateName_FinishedState ?st2
                     = Inr (Some (0, finished_state))"
    using g2 [of "[(0, ProcessInput \<lparr>line_read = ''go'', int_read = 0\<rparr>)]" ?st2] h2 by simp
  with h1 h2 h3 show ?thesis by blast
qed

text \<open>Every member of the constructed state set is stored under some enumerator.\<close>

lemma ns_member_registered:
  "\<exists>k. ns_states (ns_StateSet_ctor r) k = Some (Some (r, m))"
proof (cases m)
  case start_state
  then show ?thesis
    by (intro exI [of _ StateName_StartState]) (simp add: ns_StateSet_ctor_def)
next
  case main_menu_state
  then show ?thesis
    by (intro exI [of _ StateName_MainMenuState]) (simp add: ns_StateSet_ctor_def)
next
  case collect_name_state
  then show ?thesis
    by (intro exI [of _ StateName_CollectNameState]) (simp add: ns_StateSet_ctor_def)
next
  case collect_address_state
  then show ?thesis
    by (intro exI [of _ StateName_CollectAddressState]) (simp add: ns_StateSet_ctor_def)
next
  case collect_age_state
  then show ?thesis
    by (intro exI [of _ StateName_CollectAgeState]) (simp add: ns_StateSet_ctor_def)
next
  case collect_height_state
  then show ?thesis
    by (intro exI [of _ StateName_CollectHeightState]) (simp add: ns_StateSet_ctor_def)
next
  case edit_name_state
  then show ?thesis
    by (intro exI [of _ StateName_EditNameState]) (simp add: ns_StateSet_ctor_def)
next
  case edit_address_state
  then show ?thesis
    by (intro exI [of _ StateName_EditAddressState]) (simp add: ns_StateSet_ctor_def)
next
  case edit_age_state
  then show ?thesis
    by (intro exI [of _ StateName_EditAgeState]) (simp add: ns_StateSet_ctor_def)
next
  case edit_height_state
  then show ?thesis
    by (intro exI [of _ StateName_EditHeightState]) (simp add: ns_StateSet_ctor_def)
next
  case confirm_info_state
  then show ?thesis
    by (intro exI [of _ StateName_ConfirmInfoState]) (simp add: ns_StateSet_ctor_def)
next
  case edit_options_state
  then show ?thesis
    by (intro exI [of _ StateName_EditOptionsState]) (simp add: ns_StateSet_ctor_def)
next
  case finished_state
  then show ?thesis
    by (intro exI [of _ StateName_FinishedState]) (simp add: ns_StateSet_ctor_def)
qed

lemma ns_change_state_built_on:
  assumes "ns_built_on r b st"
  shows "\<exists>st'. ns_State_change_state (Some b) nm st = Inr st' \<and> ns_built_on r b st'"
proof -
  obtain bot m where bot: "ns_bots st b = Some bot" "ns_state_set bot = Some r"
      "ns_state_sets st r = Some (ns_StateSet_ctor r)" "ns_current_state bot = Some (r, m)"
    using assms by (auto simp: ns_built_on_def split: option.splits)
  obtain m' where "ns_get_state_at (Some r) nm st = Inr (Some (r, m'))"
    using ns_get_state_constructed [OF bot(3)] by blast
  then show ?thesis
    using bot
    by (simp add: ns_State_change_state_def ns_ChatBot_change_state_def seq_def ns_built_on_def)
qed

lemma ns_built_on_current_state:
  assumes "ns_built_on r b st"
  shows "\<exists>bot m k. ns_bots st b = Some bot \<and> ns_current_state bot = Some (r, m)
           \<and> ns_get_state_at (ns_state_set bot) k st = Inr (ns_current_state bot)"
proof -
  obtain bot m where bot: "ns_bots st b = Some bot" "ns_state_set bot = Some r"
      "ns_state_sets st r = Some (ns_StateSet_ctor r)" "ns_current_state bot = Some (r, m)"
    using assms by (auto simp: ns_built_on_def split: option.splits)
  obtain k where "ns_states (ns_StateSet_ctor r) k = Some (Some (r, m))"
    using ns_member_registered by blast
  then have "ns_get_state_at (ns_state_set bot) k st = Inr (ns_current_state bot)"
    using bot by (simp add: ns_get_state_at_def ns_StateSet_get_state_def)
  then show ?thesis using bot by blast
qed

text \<open>
  C8. A \<open>TCPConnection\<close> leaves its constructor with a non-null current state, and a
  connection with a non-null current state serves every request without a fault and
  keeps a non-null current state. A \<open>ChatBot\<close> of nosingleton.h built on a live state
  set leaves its constructor well-formed; a well-formed bot serves every request and
  makes every transition without a fault and stays well-formed; and the current state of
  a well-formed bot is non-null and is the member its state set resolves some enumerator
  to.
\<close>

theorem current_state_never_null:
  "(\<exists>c. TCPConnection_ctor srv = Inr c \<and> current_state c \<noteq> None)
   \<and> (current_state conn \<noteq> None \<longrightarrow>
        (\<exists>conn' out. TCPConnection_dispatch conn req = Inr (conn', out)
           \<and> current_state conn' \<noteq> None))
   \<and> (ns_state_sets st r = Some (ns_StateSet_ctor r) \<longrightarrow>
        (\<exists>st'. ns_ChatBot_ctor b (Some r) age0 height0 st = Inr st' \<and> ns_built_on r b st'))
   \<and> (ns_built_on r b st \<longrightarrow>
        (\<exists>st'. ns_ChatBot_dispatch b nreq st = Inr st' \<and> ns_built_on r b st')
      \<and> (\<exists>st'. ns_State_change_state (Some b) nm st = Inr st' \<and> ns_built_on r b st')
      \<and> (\<exists>bot m k. ns_bots st b = Some bot \<and> ns_current_state bot = Some (r, m)
            \<and> ns_get_state_at (ns_state_set bot) k st = Inr (ns_current_state bot)))"
proof (intro conjI impI)
  show "\<exists>c. TCPConnection_ctor srv = Inr c \<and> current_state c \<noteq> None"
    by (simp add: TCPConnection_ctor_Closed TCPClosed_instance_def)
next
  assume "current_state conn \<noteq> None"
  then obtain s where "current_state conn = Some s" by blast
  then show "\<exists>conn' out. TCPConnection_dispatch conn req = Inr (conn', out)
               \<and> current_state conn' \<noteq> None"
    by (rule tcp_dispatch_total)
next
  assume "ns_state_sets st r = Some (ns_StateSet_ctor r)"
  then show "\<exists>st'. ns_ChatBot_ctor b (Some r) age0 height0 st = Inr st' \<and> ns_built_on r b st'"
    by (rule ns_ChatBot_ctor_built_on)
next
  assume "ns_built_on r b st"
  then show "\<exists>st'. ns_ChatBot_dispatch b nreq st = Inr st' \<and> ns_built_on r b st'"
    by (rule ns_dispatch_built_on)
next
  assume "ns_built_on r b st"
  then show "\<exists>st'. ns_State_change_state (Some b) nm st = Inr st' \<and> ns_built_on r b st'"
    by (rule ns_change_state_built_on)
next
  assume "ns_built_on r b st"
  then show "\<exists>bot m k. ns_bots st b = Some bot \<and> ns_current_state bot = Some (r, m)
            \<and> ns_get_state_at (ns_state_set bot) k st = Inr (ns_current_state bot)"
    by (rule ns_built_on_current_state)
qed

theorem current_state_never_null_witness:
  "current_state \<lparr>current_state = Some TCPListen, is_server = False\<rparr> \<noteq> None
   \<and> (\<exists>conn' out. TCPConnection_dispatch \<lparr>current_state = Some TCPListen, is_server = False\<rparr> Send
          = Inr (conn', out) \<and> current_state conn' \<noteq> None)
   \<and> ns_state_sets \<lparr>ns_state_sets = [0 \<mapsto> ns_StateSet_ctor 0],
        ns_bots = [0 \<mapsto> \<lparr>ns_current_state = Some (0, main_menu_state), ns_state_set = Some 0,
                         ns_patient = \<lparr>name = [], address = [], age = 0, height = 0\<rparr>\<rparr>],
        ns_cout = []\<rparr> 0 = Some (ns_StateSet_ctor 0)
   \<and> (\<exists>st'. ns_ChatBot_ctor 1 (Some 0) 0 0 \<lparr>ns_state_sets = [0 \<mapsto> ns_StateSet_ctor 0],
        ns_bots = [0 \<mapsto> \<lparr>ns_current_state = Some (0, main_menu_state), ns_state_set = Some 0,
                         ns_patient = \<lparr>name = [], address = [], age = 0, height = 0\<rparr>\<rparr>],
        ns_cout = []\<rparr> = Inr st' \<and> ns_built_on 0 1 st')
   \<and> ns_built_on 0 0 \<lparr>ns_state_sets = [0 \<mapsto> ns_StateSet_ctor 0],
        ns_bots = [0 \<mapsto> \<lparr>ns_current_state = Some (0, main_menu_state), ns_state_set = Some 0,
                         ns_patient = \<lparr>name = [], address = [], age = 0, height = 0\<rparr>\<rparr>],
        ns_cout = []\<rparr>
   \<and> (\<exists>st'. ns_ChatBot_dispatch 0 (ProcessInput \<lparr>line_read = [], int_read = 2\<rparr>)
         \<lparr>ns_state_sets = [0 \<mapsto> ns_StateSet_ctor 0],
          ns_bots = [0 \<mapsto> \<lparr>ns_current_state = Some (0, main_menu_state), ns_state_set = Some 0,
                         ns_patient = \<lparr>name = [], address = [], age = 0, height = 0\<rparr>\<rparr>],
          ns_cout = []\<rparr> = Inr st' \<and> ns_built_on 0 0 st')"
proof -
  let ?conn = "\<lparr>current_state = Some TCPListen, is_server = False\<rparr>"
  let ?st = "\<lparr>ns_state_sets = [0 \<mapsto> ns_StateSet_ctor 0],
        ns_bots = [0 \<mapsto> \<lparr>ns_current_state = Some (0, main_menu_state), ns_state_set = Some 0,
                         ns_patient = \<lparr>name = [], address = [], age = 0, height = 0\<rparr>\<rparr>],
        ns_cout = []\<rparr>"
  have h1: "current_state ?conn \<noteq> None" by simp
  have h2: "ns_state_sets ?st 0 = Some (ns_StateSet_ctor 0)" by simp
  have h3: "ns_built_on 0 0 ?st" by (simp add: ns_built_on_def)
  note new_bot = current_state_never_null
         [of True ?conn Send ?st 0 1 0 0 "ProcessInput \<lparr>line_read = [], int_read = 2\<rparr>"
             StateName_StartState]
  note old_bot = current_state_never_null
         [of True ?conn Send ?st 0 0 0 0 "ProcessInput \<lparr>line_read = [], int_read = 2\<rparr>"
             StateName_StartState]
  from new_bot old_bot h1 h2 h3 show ?thesis
    by blast
qed


section \<open>The text of the diagnostics\<close>

text \<open>
  C9, as amended. The diagnostic of a request that the current state's class does not
  override names the request and nothing else: it is the text
  \<open>Error: current state does not implement TCPState::\<close> followed by the name of the
  member function and a newline. Two such diagnostics are equal exactly when the
  requests have the same name, whatever the two states are. The base-class handlers of
  chatbot.h write one fixed text each, whatever the bot.
\<close>

theorem default_diagnostic_names_request_only:
  assumes "current_state c1 = Some s1" and "\<not> tcp_overrides s1 r1"
    and "current_state c2 = Some s2" and "\<not> tcp_overrides s2 r2"
  shows "(\<exists>m1 m2. TCPConnection_dispatch c1 r1 = Inr (c1, m1)
           \<and> TCPConnection_dispatch c2 r2 = Inr (c2, m2)
           \<and> m1 = ''Error: current state does not implement TCPState::''
                    @ tcp_request_name r1 @ endl
           \<and> (m1 = m2) = (tcp_request_name r1 = tcp_request_name r2))
         \<and> map_sum id snd (chat_State_prompt_user chatbot)
             = Inr (''Error: State does not implement State::prompt_user'' @ endl)
         \<and> map_sum id snd (chat_State_process_input chatbot inp)
             = Inr (''Error: State does not implement State::process_input'' @ endl)"
  using tcp_unhandled [OF assms(1,2)] tcp_unhandled [OF assms(3,4)]
  by (simp add: chat_State_prompt_user_def chat_State_process_input_def)

theorem default_diagnostic_names_request_only_witness:
  "current_state \<lparr>current_state = Some TCPClosed, is_server = False\<rparr> = Some TCPClosed
   \<and> \<not> tcp_overrides TCPClosed Close
   \<and> current_state \<lparr>current_state = Some TCPSynSent, is_server = True\<rparr> = Some TCPSynSent
   \<and> \<not> tcp_overrides TCPSynSent Send
   \<and> (\<exists>m1 m2. TCPConnection_dispatch \<lparr>current_state = Some TCPClosed, is_server = False\<rparr> Close
                 = Inr (\<lparr>current_state = Some TCPClosed, is_server = False\<rparr>, m1)
           \<and> TCPConnection_dispatch \<lparr>current_state = Some TCPSynSent, is_server = True\<rparr> Send
                 = Inr (\<lparr>current_state = Some TCPSynSent, is_server = True\<rparr>, m2)
           \<and> m1 = ''Error: current state does not implement TCPState::close'' @ endl
           \<and> m1 \<noteq> m2)"
  using default_diagnostic_names_request_only
    [of "\<lparr>current_state = Some TCPClosed, is_server = False\<rparr>" TCPClosed Close
        "\<lparr>current_state = Some TCPSynSent, is_server = True\<rparr>" TCPSynSent Send]
  by simp

text \<open>
  C9, as stated, fails: the two distinct states Closed and Listen, neither of which
  overrides \<open>close\<close>, write the same text, in which no state is named.
\<close>

theorem diagnostic_same_in_two_states:
  "TCPClosed \<noteq> TCPListen
   \<and> \<not> tcp_overrides TCPClosed Close \<and> \<not> tcp_overrides TCPListen Close
   \<and> map_sum id snd (TCPConnection_dispatch \<lparr>current_state = Some TCPClosed, is_server = False\<rparr> Close)
     = Inr (''Error: current state does not implement TCPState::close'' @ endl)
   \<and> map_sum id snd (TCPConnection_dispatch \<lparr>current_state = Some TCPListen, is_server = False\<rparr> Close)
     = Inr (''Error: current state does not implement TCPState::close'' @ endl)"
  by (simp add: TCPConnection_close_def TCPState_close_def)

end
